theory Spec2Isabelle
  imports Main "HOL-Library.Word"
begin

section \<open>The IR read by the TPU input validation pass\<close>

text \<open>
  The pass of \<^verbatim>\<open>tpu_validate_inputs.cc\<close> only reads an MLIR module. The model keeps what
  the pass reads of it: the registered kind of every operation (its TypeID, or nothing
  for an unregistered operation), its string attributes, the attributes of the typed
  accessors (\<^verbatim>\<open>getIsPacked\<close>, \<^verbatim>\<open>getNumReplicas\<close>, \<^verbatim>\<open>getNumCoresPerReplica\<close>,
  \<^verbatim>\<open>getAllowSoftPlacement\<close>), its operands and results, and the operations nested in its
  regions. An \<^verbatim>\<open>Operation*\<close> is an identifier (\<open>op_id\<close>); an operand names the operation
  that defines it (none for a block argument) and each result lists the owners of its
  uses, in use-list order.

  The attribute dictionary holds string attributes only: the pass reads the cluster
  identifier and the device with \<^verbatim>\<open>getAttrOfType<StringAttr>\<close>, and only tests the
  presence of the outside compilation marker. The integers of the metadata are the
  values of its integer attributes; the pass stores them in an \<^verbatim>\<open>int\<close>, of 32 bits.
\<close>

datatype op_kind =
    ModuleOp | GraphOp | ReturnOp | FuncOp | YieldOp | IslandOp
  | TPUReplicatedInputOp | TPUReplicatedOutputOp
  | TPUPartitionedInputOp | TPUPartitionedInputV2Op
  | TPUPartitionedOutputOp | TPUPartitionedOutputV2Op
  | TPUReplicateMetadataOp | FetchOp
  | ConstOp | WhileOp | AssertOp | IdentityOp | StatefulPartitionedCallOp
  | TensorArrayV3Op | XlaSetDynamicDimensionSizeOp
  | OtherOp string

text \<open>
  Modelled from the spec: the type declarations (\<^verbatim>\<open>tf_types.h\<close>) and
  \<^verbatim>\<open>tensorflow::TypeValidForXLA\<close> (\<^verbatim>\<open>tpu_rewrite_device_util.h\<close>) are not among the
  sources. A type is represented by the two observations the pass makes of it: whether
  its element type is a resource type, and whether it is valid for XLA.
\<close>

record mlir_type =
  elem_is_resource :: bool
  valid_for_xla :: bool

definition TypeValidForXLA :: "mlir_type \<Rightarrow> bool" where
  "TypeValidForXLA t = valid_for_xla t"

record operand =
  defining_op :: "nat option"
  operand_type :: mlir_type

record op_result =
  result_type :: mlir_type
  uses :: "nat list"

record op_data =
  op_id :: nat
  registered :: "op_kind option"
  attrs :: "string \<rightharpoonup> string"
  is_packed :: bool
  num_replicas :: int
  num_cores_per_replica :: int
  allow_soft_placement :: bool
  operands :: "operand list"
  results :: "op_result list"

datatype operation = Operation (data: op_data) (regions: "operation list")

abbreviation oid :: "operation \<Rightarrow> nat" where
  "oid op \<equiv> op_id (data op)"

type_synonym int32 = "32 word"

type_synonym MetadataMap = "string \<rightharpoonup> operation"

text \<open>
  Modelled from the spec: the attribute names and the device substring are constants of
  \<^verbatim>\<open>attribute_utils.h\<close>, which is not among the sources. The diagnostics of the pass
  name the first one (\<^verbatim>\<open>missing _tpu_replicate attr\<close>).
\<close>

definition kTpuReplicateAttr :: string where
  "kTpuReplicateAttr = ''_tpu_replicate''"

definition kXlaOutsideCompilationAttr :: string where
  "kXlaOutsideCompilationAttr = ''_xla_outside_compilation''"

definition kDeviceAttr :: string where
  "kDeviceAttr = ''device''"

definition kTpuDevice :: string where
  "kTpuDevice = ''TPU''"

definition hasAttr :: "operation \<Rightarrow> string \<Rightarrow> bool" where
  "hasAttr op k = (attrs (data op) k \<noteq> None)"

definition getAttr :: "operation \<Rightarrow> string \<Rightarrow> string option" where
  "getAttr op k = attrs (data op) k"

definition isa :: "op_kind \<Rightarrow> operation \<Rightarrow> bool" where
  "isa k op = (registered (data op) = Some k)"

text \<open>
  \<^verbatim>\<open>absl::StrContains(haystack, needle)\<close>.
\<close>

fun StrContains :: "string \<Rightarrow> string \<Rightarrow> bool" where
  "StrContains [] needle = (needle = [])"
| "StrContains (c # cs) needle =
     (take (length needle) (c # cs) = needle \<or> StrContains cs needle)"

subsection \<open>Traversal\<close>

text \<open>
  \<^verbatim>\<open>Operation::walk\<close> with its default order: the nested operations first, in order,
  then the operation itself.
\<close>

fun walk :: "operation \<Rightarrow> operation list" where
  "walk (Operation d rs) = concat (map walk rs) @ [Operation d rs]"

text \<open>
  Pointers are followed by looking the identifier up in the module \<open>g\<close>. An identifier
  that names no operation of the module is skipped (MLIR has no dangling pointers).
\<close>

definition lookup_op :: "operation \<Rightarrow> nat \<Rightarrow> operation option" where
  "lookup_op g i = find (\<lambda>p. oid p = i) (walk g)"

definition getParentOp :: "operation \<Rightarrow> operation \<Rightarrow> operation option" where
  "getParentOp g op = find (\<lambda>p. oid op \<in> set (map oid (regions p))) (walk g)"

subsection \<open>Diagnostics\<close>

text \<open>
  One constructor for each message of the source, with the values the message prints. An
  operation is named by its identifier.
  \<^item> \<open>MissingTpuReplicateAttr rel rep\<close>: \<^verbatim>\<open>missing _tpu_replicate attr\<close>, on a successor or
    predecessor (\<open>rel\<close>) of the replicated input or output \<open>rep\<close>;
  \<^item> \<open>InvalidTpuReplicateAttr rel rep expected actual\<close>: \<^verbatim>\<open>invalid _tpu_replicate attr.\<close>;
  \<^item> \<open>PackedInputsNot1 label n arity\<close>: \<^verbatim>\<open>packed with number of inputs not 1.\<close>, where
    \<open>label\<close> says whether \<open>n\<close> is printed as the number of replicas or of cores;
  \<^item> \<open>InputsInconsistent label n arity\<close> and \<open>OutputsInconsistent label n arity\<close>:
    \<^verbatim>\<open>number of inputs inconsistent.\<close> and \<^verbatim>\<open>number of outputs inconsistent.\<close>;
  \<^item> \<open>NonClusterSuccessor parent cluster\<close>: the warning
    \<^verbatim>\<open>has successor as non cluster op\<close>;
  \<^item> \<open>MismatchClusters parent cluster cluster_succ\<close>:
    \<^verbatim>\<open>mismatch clusters tpu_replicate attr.\<close>;
  \<^item> \<open>InvalidSuccessor parent\<close> and \<open>InvalidPredecessor parent\<close>:
    \<^verbatim>\<open>non-cluster op = ... has invalid successor op\<close> (or predecessor);
  \<^item> \<open>EmptyTpuReplicate\<close>: \<^verbatim>\<open>empty _tpu_replicate attr\<close>;
  \<^item> \<open>BothXlaAndNonXla\<close>: \<^verbatim>\<open>found invalid op. Can't be both xla and non-xla\<close>.

  \<open>OpError i m\<close> is \<^verbatim>\<open>emitOpError\<close> and \<open>Warning i m\<close> is \<^verbatim>\<open>emitWarning\<close> on the
  operation \<open>i\<close>.
\<close>

datatype count_label = NumReplicas | NumCoresPerReplica

datatype neighbour = Successor | Predecessor

datatype message =
    MissingTpuReplicateAttr neighbour nat
  | InvalidTpuReplicateAttr neighbour nat "string option" "string option"
  | PackedInputsNot1 count_label int32 int32
  | InputsInconsistent count_label int32 int32
  | OutputsInconsistent count_label int32 int32
  | NonClusterSuccessor nat string
  | MismatchClusters nat string string
  | InvalidSuccessor nat
  | InvalidPredecessor nat
  | EmptyTpuReplicate
  | BothXlaAndNonXla

datatype diagnostic = OpError nat message | Warning nat message

text \<open>
  A check returns its verdict and the diagnostics it emitted. \<open>and_then\<close> is
  \<^verbatim>\<open>if (!a) return false;\<close> followed by \<open>b\<close>; \<open>for_each\<close> is a loop whose body
  returns false from the enclosing function when its check fails.
\<close>

type_synonym check_result = "bool \<times> diagnostic list"

definition run_if :: "bool \<Rightarrow> check_result \<Rightarrow> check_result" where
  "run_if c r = (if c then r else (True, []))"

definition and_then :: "check_result \<Rightarrow> check_result \<Rightarrow> check_result" where
  "and_then a b = (if fst a then (fst b, snd a @ snd b) else a)"

fun for_each :: "('a \<Rightarrow> check_result) \<Rightarrow> 'a list \<Rightarrow> check_result" where
  "for_each body [] = (True, [])"
| "for_each body (x # xs) = and_then (body x) (for_each body xs)"

section \<open>The pass\<close>

subsection \<open>Classification\<close>

text \<open>
  The set of each classifier is a function-local static, built by a fixed initialiser at
  the first call. It is read here as the constant it is initialised with; a later section
  threads the two sets as state of the process.
\<close>

definition tpu_regular_ops :: "op_kind list" where
  "tpu_regular_ops =
     [ModuleOp, GraphOp, ReturnOp, FuncOp, YieldOp, IslandOp,
      TPUReplicatedInputOp, TPUReplicatedOutputOp,
      TPUPartitionedInputOp, TPUPartitionedInputV2Op,
      TPUPartitionedOutputOp, TPUPartitionedOutputV2Op,
      TPUReplicateMetadataOp, FetchOp]"

definition IsTpuRegularOp :: "operation \<Rightarrow> bool" where
  "IsTpuRegularOp op =
     (case registered (data op) of
        None \<Rightarrow> True
      | Some k \<Rightarrow> count_list tpu_regular_ops k = 0)"

definition intersection_ops :: "op_kind list" where
  "intersection_ops =
     [ConstOp, WhileOp, AssertOp, IdentityOp, StatefulPartitionedCallOp,
      TensorArrayV3Op, XlaSetDynamicDimensionSizeOp]"

definition IsIntersectionXlaNonXlaOps :: "operation \<Rightarrow> bool" where
  "IsIntersectionXlaNonXlaOps op =
     (case registered (data op) of
        None \<Rightarrow> True
      | Some k \<Rightarrow> count_list intersection_ops k = 0)"

subsection \<open>Neighbours\<close>

text \<open>
  \<^verbatim>\<open>GetSuccessors\<close>: the owners of the uses of the results of the parent operation.
  The root of the module has no parent; it is a \<^verbatim>\<open>ModuleOp\<close>, which no caller passes.
\<close>

definition GetSuccessors :: "operation \<Rightarrow> operation \<Rightarrow> operation list" where
  "GetSuccessors g op =
     (case getParentOp g op of
        None \<Rightarrow> []
      | Some parent \<Rightarrow>
          concat (map (\<lambda>r. List.map_filter (lookup_op g) (uses r)) (results (data parent))))"

definition GetPredecessors :: "operation \<Rightarrow> operation \<Rightarrow> operation list" where
  "GetPredecessors g op =
     concat (map (\<lambda>v. case defining_op v of
                         None \<Rightarrow> []
                       | Some i \<Rightarrow> (case lookup_op g i of None \<Rightarrow> [] | Some p \<Rightarrow> walk p))
                 (operands (data op)))"

subsection \<open>Checks of the replicated and partitioned inputs and outputs\<close>

definition CheckTpuReplicateAttr ::
  "operation \<Rightarrow> string option \<Rightarrow> neighbour \<Rightarrow> nat \<Rightarrow> check_result" where
  "CheckTpuReplicateAttr op attr rel rep =
     (if \<not> hasAttr op kTpuReplicateAttr
      then (False, [OpError (oid op) (MissingTpuReplicateAttr rel rep)])
      else let opattr = getAttr op kTpuReplicateAttr in
        if opattr \<noteq> attr
        then (False, [OpError (oid op) (InvalidTpuReplicateAttr rel rep attr opattr)])
        else (True, []))"

definition ValidateReplicatedInput ::
  "operation \<Rightarrow> operation \<Rightarrow> int32 \<Rightarrow> string option \<Rightarrow> check_result" where
  "ValidateReplicatedInput g rep n_replicas attr =
     (let arity = (of_nat (length (operands (data rep))) :: int32) in
      if is_packed (data rep) \<and> arity \<noteq> 1
      then (False, [OpError (oid rep) (PackedInputsNot1 NumReplicas n_replicas arity)])
      else if \<not> is_packed (data rep) \<and> arity \<noteq> n_replicas
      then (False, [OpError (oid rep) (InputsInconsistent NumReplicas n_replicas arity)])
      else for_each
             (\<lambda>succ. if \<not> IsTpuRegularOp succ then (True, [])
                     else CheckTpuReplicateAttr succ attr Successor (oid rep))
             (GetSuccessors g rep))"

definition ValidateReplicatedOutput ::
  "operation \<Rightarrow> operation \<Rightarrow> int32 \<Rightarrow> string option \<Rightarrow> check_result" where
  "ValidateReplicatedOutput g rep n_replicas attr =
     (let arity = (of_nat (length (results (data rep))) :: int32) in
      if arity \<noteq> n_replicas
      then (False, [OpError (oid rep) (OutputsInconsistent NumReplicas n_replicas arity)])
      else for_each
             (\<lambda>pred. if \<not> IsTpuRegularOp pred then (True, [])
                     else CheckTpuReplicateAttr pred attr Predecessor (oid rep))
             (GetPredecessors g rep))"

definition ValidatePartitionedInput :: "operation \<Rightarrow> int32 \<Rightarrow> check_result" where
  "ValidatePartitionedInput rep n_cores =
     (let arity = (of_nat (length (operands (data rep))) :: int32) in
      if arity \<noteq> n_cores
      then (False, [OpError (oid rep) (InputsInconsistent NumCoresPerReplica n_cores arity)])
      else (True, []))"

definition ValidatePartitionedInputV2 :: "operation \<Rightarrow> int32 \<Rightarrow> check_result" where
  "ValidatePartitionedInputV2 rep n_cores =
     (let arity = (of_nat (length (operands (data rep))) :: int32) in
      if is_packed (data rep) \<and> arity \<noteq> 1
      then (False, [OpError (oid rep) (PackedInputsNot1 NumCoresPerReplica n_cores arity)])
      else if \<not> is_packed (data rep) \<and> arity \<noteq> n_cores
      then (False, [OpError (oid rep) (InputsInconsistent NumCoresPerReplica n_cores arity)])
      else (True, []))"

definition ValidatePartitionedOutput :: "operation \<Rightarrow> int32 \<Rightarrow> check_result" where
  "ValidatePartitionedOutput rep n_cores =
     (let arity = (of_nat (length (results (data rep))) :: int32) in
      if arity \<noteq> n_cores
      then (False, [OpError (oid rep) (OutputsInconsistent NumCoresPerReplica n_cores arity)])
      else (True, []))"

text \<open>
  \<^verbatim>\<open>int num_replicas = metadata.getNumReplicas()\<close> converts the attribute's integer to a
  32-bit \<^verbatim>\<open>int\<close>. The parameter \<^verbatim>\<open>parent\<close> is not read.
\<close>

definition CheckReplicatedIOOp ::
  "operation \<Rightarrow> operation \<Rightarrow> operation \<Rightarrow> operation \<Rightarrow> check_result" where
  "CheckReplicatedIOOp g op metadata parent =
     (let n_replicas = (word_of_int (num_replicas (data metadata)) :: int32);
          n_cores = (word_of_int (num_cores_per_replica (data metadata)) :: int32);
          tpu_replicate_attr = getAttr metadata kTpuReplicateAttr
      in
        and_then (run_if (isa TPUReplicatedInputOp op)
                    (ValidateReplicatedInput g op n_replicas tpu_replicate_attr))
       (and_then (run_if (isa TPUReplicatedOutputOp op)
                    (ValidateReplicatedOutput g op n_replicas tpu_replicate_attr))
       (and_then (run_if (isa TPUPartitionedInputOp op)
                    (ValidatePartitionedInput op n_cores))
       (and_then (run_if (isa TPUPartitionedInputV2Op op)
                    (ValidatePartitionedInputV2 op n_cores))
       (and_then (run_if (isa TPUPartitionedOutputOp op)
                    (ValidatePartitionedOutput op n_cores))
                 (run_if (isa TPUPartitionedOutputV2Op op)
                    (ValidatePartitionedOutput op n_cores)))))))"

subsection \<open>Checks of the cluster boundary\<close>

definition CheckClusterSuccessors ::
  "operation \<Rightarrow> string \<Rightarrow> operation \<Rightarrow> MetadataMap \<Rightarrow> check_result" where
  "CheckClusterSuccessors op cluster parent metadata_map =
     (let cluster_succ =
            (case getAttr op kTpuReplicateAttr of None \<Rightarrow> [] | Some s \<Rightarrow> s)
      in
        if cluster_succ = []
        then (True, [Warning (oid op) (NonClusterSuccessor (oid parent) cluster)])
        else if cluster \<noteq> cluster_succ
        then (False, [OpError (oid op) (MismatchClusters (oid parent) cluster cluster_succ)])
        else (True, []))"

definition CheckNonClusterSuccessors ::
  "operation \<Rightarrow> operation \<Rightarrow> MetadataMap \<Rightarrow> check_result" where
  "CheckNonClusterSuccessors op parent metadata_map =
     (if \<not> IsTpuRegularOp op
      then (if isa TPUReplicatedOutputOp op
            then (False, [OpError (oid op) (InvalidSuccessor (oid parent))])
            else (True, []))
      else (True, []))"

definition CheckNonClusterPredecessors ::
  "operation \<Rightarrow> operation \<Rightarrow> MetadataMap \<Rightarrow> check_result" where
  "CheckNonClusterPredecessors op parent metadata_map =
     (if \<not> IsTpuRegularOp op
      then (if isa TPUReplicatedInputOp op
            then (False, [OpError (oid op) (InvalidPredecessor (oid parent))])
            else (True, []))
      else (True, []))"

text \<open>
  \<^verbatim>\<open>metadata_map[cluster]\<close> is only read under \<^verbatim>\<open>has_cluster_metadata\<close>; the model
  reads both at once with a case on the lookup.
\<close>

definition CheckOpsClusterIO :: "operation \<Rightarrow> MetadataMap \<Rightarrow> operation \<Rightarrow> check_result" where
  "CheckOpsClusterIO g metadata_map op =
     (let is_cluster_op = hasAttr op kTpuReplicateAttr;
          cluster = (case getAttr op kTpuReplicateAttr of None \<Rightarrow> [] | Some s \<Rightarrow> s)
      in
        if is_cluster_op \<and> cluster = []
        then (False, [OpError (oid op) EmptyTpuReplicate])
        else
          and_then
            (for_each
               (\<lambda>pred.
                  and_then
                    (case metadata_map cluster of
                       None \<Rightarrow> (True, [])
                     | Some metadata \<Rightarrow>
                         run_if (is_cluster_op \<and> \<not> IsTpuRegularOp pred)
                           (CheckReplicatedIOOp g pred metadata op))
                    (run_if (\<not> is_cluster_op)
                       (CheckNonClusterPredecessors pred op metadata_map)))
               (GetPredecessors g op))
            (for_each
               (\<lambda>succ.
                  and_then
                    (case metadata_map cluster of
                       None \<Rightarrow> (True, [])
                     | Some metadata \<Rightarrow>
                         run_if (is_cluster_op \<and> \<not> IsTpuRegularOp succ)
                           (CheckReplicatedIOOp g succ metadata op))
                 (and_then
                    (run_if (is_cluster_op \<and> IsTpuRegularOp succ)
                       (CheckClusterSuccessors succ cluster op metadata_map))
                    (run_if (\<not> is_cluster_op)
                       (CheckNonClusterSuccessors succ op metadata_map))))
               (GetSuccessors g op)))"

subsection \<open>The check of operations that must and must not be compiled\<close>

definition InTypeMustBeNonXLA :: "mlir_type \<Rightarrow> bool" where
  "InTypeMustBeNonXLA t = (\<not> elem_is_resource t \<and> \<not> TypeValidForXLA t)"

definition IsMustNotBeXlaOp :: "operation \<Rightarrow> bool" where
  "IsMustNotBeXlaOp op =
     (list_ex (\<lambda>input. InTypeMustBeNonXLA (operand_type input)) (operands (data op))
      \<or> list_ex (\<lambda>r. \<not> TypeValidForXLA (result_type r)) (results (data op)))"

definition IsMustBeXlaOp :: "operation \<Rightarrow> MetadataMap \<Rightarrow> bool" where
  "IsMustBeXlaOp op metadata_map =
     (case getAttr op kTpuReplicateAttr of
        None \<Rightarrow> False
      | Some cluster \<Rightarrow>
          (case metadata_map cluster of
             None \<Rightarrow> False
           | Some metadata \<Rightarrow>
               if \<not> allow_soft_placement (data metadata)
                  \<and> \<not> hasAttr op kXlaOutsideCompilationAttr
               then True
               else (case getAttr op kDeviceAttr of
                       None \<Rightarrow> False
                     | Some device \<Rightarrow> StrContains device kTpuDevice)))"

definition ValidateIntersectionXlaNonXlaOps :: "operation \<Rightarrow> MetadataMap \<Rightarrow> check_result" where
  "ValidateIntersectionXlaNonXlaOps op metadata_map =
     (if isa TPUReplicateMetadataOp op
         \<or> isa TPUReplicatedInputOp op \<or> isa TPUReplicatedOutputOp op
         \<or> isa TPUPartitionedInputOp op
         \<or> isa TPUPartitionedInputV2Op op
         \<or> isa TPUPartitionedOutputOp op
         \<or> isa TPUPartitionedOutputV2Op op
      then (True, [])
      else if IsMustBeXlaOp op metadata_map \<and> IsMustNotBeXlaOp op
      then (False, [OpError (oid op) BothXlaAndNonXla])
      else (True, []))"

subsection \<open>The driver\<close>

text \<open>
  The first walk fills the metadata map; a later metadata operation of the same cluster
  replaces an earlier one. (Its other two locals, \<^verbatim>\<open>num_metadata\<close> and \<^verbatim>\<open>metadata\<close>,
  are written and never read.) \<^verbatim>\<open>getAttrOfType<StringAttr>(...).str()\<close> on a metadata
  operation without the attribute dereferences a null attribute: the pass gives no
  verdict, which is the value \<open>None\<close>.
\<close>

fun collect_metadata :: "operation list \<Rightarrow> MetadataMap \<Rightarrow> MetadataMap option" where
  "collect_metadata [] metadata_map = Some metadata_map"
| "collect_metadata (op # ops) metadata_map =
     (if isa TPUReplicateMetadataOp op
      then (case getAttr op kTpuReplicateAttr of
              None \<Rightarrow> None
            | Some cluster \<Rightarrow> collect_metadata ops (metadata_map(cluster \<mapsto> op)))
      else collect_metadata ops metadata_map)"

text \<open>
  The second walk: \<^verbatim>\<open>success &= ...\<close> evaluates its right-hand side whatever the
  value of \<^verbatim>\<open>success\<close>. The state is the flag and the diagnostics emitted so far.
\<close>

definition accumulate :: "check_result \<Rightarrow> check_result \<Rightarrow> check_result" where
  "accumulate st r = (fst st \<and> fst r, snd st @ snd r)"

definition check_op :: "operation \<Rightarrow> MetadataMap \<Rightarrow> check_result \<Rightarrow> operation \<Rightarrow> check_result" where
  "check_op g metadata_map st op =
     (let st1 = (if IsTpuRegularOp op
                 then accumulate st (CheckOpsClusterIO g metadata_map op) else st)
      in if IsIntersectionXlaNonXlaOps op
         then accumulate st1 (ValidateIntersectionXlaNonXlaOps op metadata_map) else st1)"

text \<open>
  The result is \<^verbatim>\<open>success\<close> at the end of the second walk, with the diagnostics; the
  pass signals failure exactly when the flag is false.
\<close>

definition runOnOperation :: "operation \<Rightarrow> check_result option" where
  "runOnOperation g =
     (case collect_metadata (walk g) Map.empty of
        None \<Rightarrow> None
      | Some metadata_map \<Rightarrow> Some (foldl (check_op g metadata_map) (True, []) (walk g)))"

section \<open>The classification sets as state of the process\<close>

text \<open>
  \<^verbatim>\<open>static auto* ops = [] { ... }();\<close> in \<^verbatim>\<open>IsTpuRegularOp\<close> and in
  \<^verbatim>\<open>IsIntersectionXlaNonXlaOps\<close>: each set is built when its function is called for the
  first time in the process and is kept until the process ends. These two variables are
  the only ones of the file that outlive a run of the pass. The definitions above read
  them as the constants they are initialised with. The definitions of this section thread
  them as state instead, in the order in which the code evaluates its conditions, so that
  a run of the pass takes the state an earlier run has left.
\<close>

record statics =
  regular_static :: "op_kind list option"
  intersection_static :: "op_kind list option"

definition fresh_process :: statics where
  "fresh_process = \<lparr>regular_static = None, intersection_static = None\<rparr>"

type_synonym 'a in_process = "statics \<Rightarrow> 'a \<times> statics"

definition pure_in :: "'a \<Rightarrow> 'a in_process" where
  "pure_in x s = (x, s)"

definition then_in :: "'a in_process \<Rightarrow> ('a \<Rightarrow> 'b in_process) \<Rightarrow> 'b in_process" where
  "then_in m k s = (case m s of (x, s') \<Rightarrow> k x s')"

definition run_if_in :: "bool \<Rightarrow> check_result in_process \<Rightarrow> check_result in_process" where
  "run_if_in c r = (if c then r else pure_in (True, []))"

definition and_then_in ::
  "check_result in_process \<Rightarrow> check_result in_process \<Rightarrow> check_result in_process" where
  "and_then_in a b =
     then_in a (\<lambda>r. if fst r then then_in b (\<lambda>r'. pure_in (fst r', snd r @ snd r'))
                     else pure_in r)"

fun for_each_in :: "('a \<Rightarrow> check_result in_process) \<Rightarrow> 'a list \<Rightarrow> check_result in_process" where
  "for_each_in body [] = pure_in (True, [])"
| "for_each_in body (x # xs) = and_then_in (body x) (for_each_in body xs)"

definition IsTpuRegularOp_in :: "operation \<Rightarrow> bool in_process" where
  "IsTpuRegularOp_in op s =
     (let ops = (case regular_static s of None \<Rightarrow> tpu_regular_ops | Some ops \<Rightarrow> ops)
      in ((case registered (data op) of
             None \<Rightarrow> True
           | Some k \<Rightarrow> count_list ops k = 0),
          s\<lparr>regular_static := Some ops\<rparr>))"

definition IsIntersectionXlaNonXlaOps_in :: "operation \<Rightarrow> bool in_process" where
  "IsIntersectionXlaNonXlaOps_in op s =
     (let ops = (case intersection_static s of None \<Rightarrow> intersection_ops | Some ops \<Rightarrow> ops)
      in ((case registered (data op) of
             None \<Rightarrow> True
           | Some k \<Rightarrow> count_list ops k = 0),
          s\<lparr>intersection_static := Some ops\<rparr>))"

definition ValidateReplicatedInput_in ::
  "operation \<Rightarrow> operation \<Rightarrow> int32 \<Rightarrow> string option \<Rightarrow> check_result in_process" where
  "ValidateReplicatedInput_in g rep n_replicas attr =
     (let arity = (of_nat (length (operands (data rep))) :: int32) in
      if is_packed (data rep) \<and> arity \<noteq> 1
      then pure_in (False, [OpError (oid rep) (PackedInputsNot1 NumReplicas n_replicas arity)])
      else if \<not> is_packed (data rep) \<and> arity \<noteq> n_replicas
      then pure_in (False, [OpError (oid rep) (InputsInconsistent NumReplicas n_replicas arity)])
      else for_each_in
             (\<lambda>succ. then_in (IsTpuRegularOp_in succ)
                (\<lambda>regular. if \<not> regular then pure_in (True, [])
                            else pure_in (CheckTpuReplicateAttr succ attr Successor (oid rep))))
             (GetSuccessors g rep))"

definition ValidateReplicatedOutput_in ::
  "operation \<Rightarrow> operation \<Rightarrow> int32 \<Rightarrow> string option \<Rightarrow> check_result in_process" where
  "ValidateReplicatedOutput_in g rep n_replicas attr =
     (let arity = (of_nat (length (results (data rep))) :: int32) in
      if arity \<noteq> n_replicas
      then pure_in (False, [OpError (oid rep) (OutputsInconsistent NumReplicas n_replicas arity)])
      else for_each_in
             (\<lambda>pred. then_in (IsTpuRegularOp_in pred)
                (\<lambda>regular. if \<not> regular then pure_in (True, [])
                            else pure_in (CheckTpuReplicateAttr pred attr Predecessor (oid rep))))
             (GetPredecessors g rep))"

definition CheckReplicatedIOOp_in ::
  "operation \<Rightarrow> operation \<Rightarrow> operation \<Rightarrow> operation \<Rightarrow> check_result in_process" where
  "CheckReplicatedIOOp_in g op metadata parent =
     (let n_replicas = (word_of_int (num_replicas (data metadata)) :: int32);
          n_cores = (word_of_int (num_cores_per_replica (data metadata)) :: int32);
          tpu_replicate_attr = getAttr metadata kTpuReplicateAttr
      in
        and_then_in (run_if_in (isa TPUReplicatedInputOp op)
                       (ValidateReplicatedInput_in g op n_replicas tpu_replicate_attr))
       (and_then_in (run_if_in (isa TPUReplicatedOutputOp op)
                       (ValidateReplicatedOutput_in g op n_replicas tpu_replicate_attr))
          (pure_in
             (and_then (run_if (isa TPUPartitionedInputOp op)
                          (ValidatePartitionedInput op n_cores))
             (and_then (run_if (isa TPUPartitionedInputV2Op op)
                          (ValidatePartitionedInputV2 op n_cores))
             (and_then (run_if (isa TPUPartitionedOutputOp op)
                          (ValidatePartitionedOutput op n_cores))
                       (run_if (isa TPUPartitionedOutputV2Op op)
                          (ValidatePartitionedOutput op n_cores))))))))"

definition CheckNonClusterSuccessors_in ::
  "operation \<Rightarrow> operation \<Rightarrow> MetadataMap \<Rightarrow> check_result in_process" where
  "CheckNonClusterSuccessors_in op parent metadata_map =
     then_in (IsTpuRegularOp_in op)
       (\<lambda>regular. if \<not> regular
          then (if isa TPUReplicatedOutputOp op
                then pure_in (False, [OpError (oid op) (InvalidSuccessor (oid parent))])
                else pure_in (True, []))
          else pure_in (True, []))"

definition CheckNonClusterPredecessors_in ::
  "operation \<Rightarrow> operation \<Rightarrow> MetadataMap \<Rightarrow> check_result in_process" where
  "CheckNonClusterPredecessors_in op parent metadata_map =
     then_in (IsTpuRegularOp_in op)
       (\<lambda>regular. if \<not> regular
          then (if isa TPUReplicatedInputOp op
                then pure_in (False, [OpError (oid op) (InvalidPredecessor (oid parent))])
                else pure_in (True, []))
          else pure_in (True, []))"

text \<open>
  \<^verbatim>\<open>is_cluster_op && !IsTpuRegularOp(pred) && has_cluster_metadata\<close>: the classifier is
  called only when \<^verbatim>\<open>is_cluster_op\<close> holds.
\<close>

definition delegate_in ::
  "operation \<Rightarrow> MetadataMap \<Rightarrow> operation \<Rightarrow> bool \<Rightarrow> string \<Rightarrow> operation \<Rightarrow> check_result in_process" where
  "delegate_in g metadata_map op is_cluster_op cluster neighbour =
     (if is_cluster_op
      then then_in (IsTpuRegularOp_in neighbour)
             (\<lambda>regular. case metadata_map cluster of
                  None \<Rightarrow> pure_in (True, [])
                | Some metadata \<Rightarrow>
                    run_if_in (\<not> regular) (CheckReplicatedIOOp_in g neighbour metadata op))
      else pure_in (True, []))"

definition CheckOpsClusterIO_in ::
  "operation \<Rightarrow> MetadataMap \<Rightarrow> operation \<Rightarrow> check_result in_process" where
  "CheckOpsClusterIO_in g metadata_map op =
     (let is_cluster_op = hasAttr op kTpuReplicateAttr;
          cluster = (case getAttr op kTpuReplicateAttr of None \<Rightarrow> [] | Some s \<Rightarrow> s)
      in
        if is_cluster_op \<and> cluster = []
        then pure_in (False, [OpError (oid op) EmptyTpuReplicate])
        else
          and_then_in
            (for_each_in
               (\<lambda>pred.
                  and_then_in
                    (delegate_in g metadata_map op is_cluster_op cluster pred)
                    (run_if_in (\<not> is_cluster_op)
                       (CheckNonClusterPredecessors_in pred op metadata_map)))
               (GetPredecessors g op))
            (for_each_in
               (\<lambda>succ.
                  and_then_in
                    (delegate_in g metadata_map op is_cluster_op cluster succ)
                 (and_then_in
                    (if is_cluster_op
                     then then_in (IsTpuRegularOp_in succ)
                            (\<lambda>regular. run_if_in regular
                               (pure_in (CheckClusterSuccessors succ cluster op metadata_map)))
                     else pure_in (True, []))
                    (run_if_in (\<not> is_cluster_op)
                       (CheckNonClusterSuccessors_in succ op metadata_map))))
               (GetSuccessors g op)))"

definition check_op_in ::
  "operation \<Rightarrow> MetadataMap \<Rightarrow> check_result \<Rightarrow> operation \<Rightarrow> check_result in_process" where
  "check_op_in g metadata_map st op =
     then_in (IsTpuRegularOp_in op)
       (\<lambda>regular.
          then_in (if regular
                   then then_in (CheckOpsClusterIO_in g metadata_map op)
                          (\<lambda>r. pure_in (accumulate st r))
                   else pure_in st)
            (\<lambda>st1.
               then_in (IsIntersectionXlaNonXlaOps_in op)
                 (\<lambda>classified.
                    if classified
                    then pure_in (accumulate st1 (ValidateIntersectionXlaNonXlaOps op metadata_map))
                    else pure_in st1)))"

fun walk_in ::
  "operation \<Rightarrow> MetadataMap \<Rightarrow> operation list \<Rightarrow> check_result \<Rightarrow> check_result in_process" where
  "walk_in g metadata_map [] st = pure_in st"
| "walk_in g metadata_map (op # ops) st =
     then_in (check_op_in g metadata_map st op) (walk_in g metadata_map ops)"

definition runOnOperation_in :: "operation \<Rightarrow> check_result option in_process" where
  "runOnOperation_in g =
     (case collect_metadata (walk g) Map.empty of
        None \<Rightarrow> pure_in None
      | Some metadata_map \<Rightarrow>
          then_in (walk_in g metadata_map (walk g) (True, [])) (\<lambda>st. pure_in (Some st)))"

text \<open>
  The states a process can be in: each set is not yet built, or holds what its
  initialiser builds. A later state keeps an earlier one when every set that was built
  is unchanged.
\<close>

definition valid_statics :: "statics \<Rightarrow> bool" where
  "valid_statics s =
     ((regular_static s = None \<or> regular_static s = Some tpu_regular_ops)
      \<and> (intersection_static s = None \<or> intersection_static s = Some intersection_ops))"

definition keeps :: "statics \<Rightarrow> statics \<Rightarrow> bool" where
  "keeps s s' =
     ((regular_static s \<noteq> None \<longrightarrow> regular_static s' = regular_static s)
      \<and> (intersection_static s \<noteq> None \<longrightarrow> intersection_static s' = intersection_static s))"

text \<open>
  A threaded computation agrees with a value when, from every state a process can be in,
  it returns that value and leaves such a state, which keeps the one it started from.
\<close>

definition agrees :: "'a in_process \<Rightarrow> 'a \<Rightarrow> bool" where
  "agrees m x =
     (\<forall>s. valid_statics s \<longrightarrow>
          fst (m s) = x \<and> valid_statics (snd (m s)) \<and> keeps s (snd (m s)))"

section \<open>Vocabulary of the statements\<close>

text \<open>
  The six kinds of replicated and partitioned inputs and outputs that
  \<^verbatim>\<open>CheckReplicatedIOOp\<close> dispatches on.
\<close>

definition replicated_io_ops :: "op_kind list" where
  "replicated_io_ops =
     [TPUReplicatedInputOp, TPUReplicatedOutputOp, TPUPartitionedInputOp,
      TPUPartitionedInputV2Op, TPUPartitionedOutputOp, TPUPartitionedOutputV2Op]"

text \<open>The diagnostics of the arity rules.\<close>

definition is_arity_message :: "message \<Rightarrow> bool" where
  "is_arity_message m =
     (case m of
        PackedInputsNot1 l n a \<Rightarrow> True
      | InputsInconsistent l n a \<Rightarrow> True
      | OutputsInconsistent l n a \<Rightarrow> True
      | _ \<Rightarrow> False)"

text \<open>
  The classification of intersection candidates as the specification words it (4.1): the
  kind is in the intersection set, or the kind is unregistered. It is compared with
  \<open>IsIntersectionXlaNonXlaOps\<close>, which is the classification of the code.
\<close>

definition is_intersection_candidate :: "operation \<Rightarrow> bool" where
  "is_intersection_candidate op =
     (case registered (data op) of None \<Rightarrow> True | Some k \<Rightarrow> k \<in> set intersection_ops)"

text \<open>
  The numbers the arity rules compare, as the 32-bit \<^verbatim>\<open>int\<close> the source stores them in:
  \<^verbatim>\<open>rep.getInputs().size()\<close>, \<^verbatim>\<open>rep.getOutputs().size()\<close>,
  \<^verbatim>\<open>metadata.getNumReplicas()\<close> and \<^verbatim>\<open>metadata.getNumCoresPerReplica()\<close>.
\<close>

abbreviation input_arity :: "operation \<Rightarrow> int32" where
  "input_arity p \<equiv> of_nat (length (operands (data p)))"

abbreviation output_arity :: "operation \<Rightarrow> int32" where
  "output_arity p \<equiv> of_nat (length (results (data p)))"

abbreviation replicas_of :: "operation \<Rightarrow> int32" where
  "replicas_of md \<equiv> word_of_int (num_replicas (data md))"

abbreviation cores_of :: "operation \<Rightarrow> int32" where
  "cores_of md \<equiv> word_of_int (num_cores_per_replica (data md))"

text \<open>
  The same operation with another cluster identifier attribute, or without it (\<open>None\<close>).
  Everything else is kept: the identity, the kind, the other attributes, the packing flag,
  the operands and the results.
\<close>

definition set_cluster_attr :: "string option \<Rightarrow> operation \<Rightarrow> operation" where
  "set_cluster_attr v op =
     Operation ((data op)\<lparr>attrs := (attrs (data op))(kTpuReplicateAttr := v)\<rparr>) (regions op)"

text \<open>
  What MLIR guarantees of a module the pass is run on: its root is a \<^verbatim>\<open>ModuleOp\<close>, the
  operations are distinct, every operand defined by an operation is among the uses of a
  result of that operation, and every use of a result is an operand of its owner.
\<close>

definition operands_have_uses :: "operation \<Rightarrow> bool" where
  "operands_have_uses g =
     list_all (\<lambda>op. list_all
        (\<lambda>v. case defining_op v of
               None \<Rightarrow> True
             | Some i \<Rightarrow> (case lookup_op g i of
                           None \<Rightarrow> False
                         | Some d \<Rightarrow> oid op \<in> set (concat (map uses (results (data d))))))
        (operands (data op))) (walk g)"

definition uses_have_operands :: "operation \<Rightarrow> bool" where
  "uses_have_operands g =
     list_all (\<lambda>op. list_all
        (\<lambda>r. list_all
           (\<lambda>u. case lookup_op g u of
                  None \<Rightarrow> False
                | Some owner \<Rightarrow> Some (oid op) \<in> set (map defining_op (operands (data owner))))
           (uses r))
        (results (data op))) (walk g)"

definition well_formed_module :: "operation \<Rightarrow> bool" where
  "well_formed_module g =
     (isa ModuleOp g \<and> distinct (map oid (walk g))
      \<and> operands_have_uses g \<and> uses_have_operands g)"

section \<open>Example modules\<close>

text \<open>
  Small modules in the shape the pass receives: a module holding a function holding a
  \<^verbatim>\<open>tf_executor.graph\<close>, whose islands each wrap one operation and a yield, followed by
  the fetch. The island with identifier \<open>i\<close> wraps the operation \<open>i + 1\<close> and the yield
  \<open>i + 2\<close>.
\<close>

definition tensor_f32 :: mlir_type where
  "tensor_f32 = \<lparr>elem_is_resource = False, valid_for_xla = True\<rparr>"

definition tensor_string :: mlir_type where
  "tensor_string = \<lparr>elem_is_resource = False, valid_for_xla = False\<rparr>"

definition mk_data ::
  "nat \<Rightarrow> op_kind \<Rightarrow> (string \<rightharpoonup> string) \<Rightarrow> operand list \<Rightarrow> op_result list \<Rightarrow> op_data" where
  "mk_data i k a os rs =
     \<lparr>op_id = i, registered = Some k, attrs = a, is_packed = False, num_replicas = 0,
      num_cores_per_replica = 0, allow_soft_placement = False, operands = os, results = rs\<rparr>"

definition block_arg :: "mlir_type \<Rightarrow> operand" where
  "block_arg t = \<lparr>defining_op = None, operand_type = t\<rparr>"

definition result_of :: "nat \<Rightarrow> mlir_type \<Rightarrow> operand" where
  "result_of i t = \<lparr>defining_op = Some i, operand_type = t\<rparr>"

definition used_by :: "mlir_type \<Rightarrow> nat list \<Rightarrow> op_result" where
  "used_by t us = \<lparr>result_type = t, uses = us\<rparr>"

definition island :: "nat \<Rightarrow> op_result list \<Rightarrow> operation \<Rightarrow> operation" where
  "island i rs op =
     Operation (mk_data i IslandOp Map.empty [] rs)
       [op, Operation (mk_data (i + 2) YieldOp Map.empty
                         (map (\<lambda>r. result_of (oid op) (result_type r)) (results (data op))) []) []]"

definition module_of :: "operation list \<Rightarrow> operation" where
  "module_of islands =
     Operation (mk_data 0 ModuleOp Map.empty [] [])
       [Operation (mk_data 1 FuncOp Map.empty [] [])
          [Operation (mk_data 2 GraphOp Map.empty [] [])
             (islands @ [Operation (mk_data 3 FetchOp Map.empty [] []) []]),
           Operation (mk_data 4 ReturnOp Map.empty [] []) []]]"

definition metadata_op :: "nat \<Rightarrow> string \<Rightarrow> int \<Rightarrow> int \<Rightarrow> operation" where
  "metadata_op i c n m =
     Operation ((mk_data i TPUReplicateMetadataOp [kTpuReplicateAttr \<mapsto> c] [] [])
                  \<lparr>num_replicas := n, num_cores_per_replica := m\<rparr>) []"

definition replicated_input :: "nat \<Rightarrow> (string \<rightharpoonup> string) \<Rightarrow> nat \<Rightarrow> operation" where
  "replicated_input i a n =
     Operation (mk_data i TPUReplicatedInputOp a (replicate n (block_arg tensor_f32))
                  [used_by tensor_f32 [i + 1]]) []"

definition plain_op :: "nat \<Rightarrow> (string \<rightharpoonup> string) \<Rightarrow> nat list \<Rightarrow> mlir_type \<Rightarrow> operation" where
  "plain_op i a ins t =
     Operation (mk_data i (OtherOp ''tf.A'') a (map (\<lambda>j. result_of j tensor_f32) ins)
                  [used_by t [i + 1]]) []"

text \<open>
  The cluster \<open>c1\<close>: two replicas, two cores per replica, soft placement disabled. The
  cluster \<open>c2\<close>: one replica, one core.
\<close>

definition c1_meta :: operation where
  "c1_meta = metadata_op 11 ''c1'' 2 2"

definition c2_meta :: operation where
  "c2_meta = metadata_op 14 ''c2'' 1 1"

definition cluster_c1 :: MetadataMap where
  "cluster_c1 = [''c1'' \<mapsto> c1_meta]"

definition two_clusters :: MetadataMap where
  "two_clusters = [''c1'' \<mapsto> c1_meta, ''c2'' \<mapsto> c2_meta]"

text \<open>
  Scenario A of the specification: a replicated input with two operands feeds a plain
  operation of the cluster \<open>c1\<close>.
\<close>

definition a_rep :: operation where
  "a_rep = replicated_input 21 Map.empty 2"

definition a_op :: operation where
  "a_op = plain_op 31 [kTpuReplicateAttr \<mapsto> ''c1''] [20] tensor_f32"

definition a_module :: operation where
  "a_module = module_of [island 10 [] c1_meta, island 20 [used_by tensor_f32 [31]] a_rep,
                         island 30 [used_by tensor_f32 []] a_op]"

definition packed_rep :: operation where
  "packed_rep = Operation ((data (replicated_input 21 Map.empty 2))\<lparr>is_packed := True\<rparr>) []"

text \<open>
  Scenario D: an operation of the cluster \<open>c1\<close> with a string result; \<open>d_op\<close> is of a
  kind outside the intersection set, \<open>k_op\<close> is a constant.
\<close>

definition d_op :: operation where
  "d_op = plain_op 31 [kTpuReplicateAttr \<mapsto> ''c1''] [] tensor_string"

definition d_module :: operation where
  "d_module = module_of [island 10 [] c1_meta, island 30 [used_by tensor_string []] d_op]"

definition k_op :: operation where
  "k_op = Operation (mk_data 31 ConstOp [kTpuReplicateAttr \<mapsto> ''c1''] []
                       [used_by tensor_string [32]]) []"

definition k_module :: operation where
  "k_module = module_of [island 10 [] c1_meta, island 30 [used_by tensor_string []] k_op]"

text \<open>
  Two clusters: the replicated input carries the identifier \<open>c2\<close> and has one operand; it
  feeds the operation \<open>a_op\<close> of the cluster \<open>c1\<close>.
\<close>

definition m_rep :: operation where
  "m_rep = replicated_input 21 [kTpuReplicateAttr \<mapsto> ''c2''] 1"

definition m_module :: operation where
  "m_module = module_of [island 10 [] c1_meta, island 13 [] c2_meta,
                         island 20 [used_by tensor_f32 [31]] m_rep,
                         island 30 [used_by tensor_f32 []] a_op]"

text \<open>A plain operation outside every cluster, fed by two replicated inputs.\<close>

definition n_rep1 :: operation where
  "n_rep1 = replicated_input 21 Map.empty 2"

definition n_rep2 :: operation where
  "n_rep2 = replicated_input 24 Map.empty 2"

definition n_op :: operation where
  "n_op = plain_op 31 Map.empty [20, 23] tensor_f32"

definition n_module :: operation where
  "n_module = module_of [island 10 [] c1_meta, island 20 [used_by tensor_f32 [31]] n_rep1,
                         island 23 [used_by tensor_f32 [31]] n_rep2,
                         island 30 [used_by tensor_f32 []] n_op]"

text \<open>
  A replicated input with two operands feeds a plain operation of the cluster \<open>c1\<close> and
  a plain operation without cluster identifier.
\<close>

definition r_rep :: operation where
  "r_rep = replicated_input 21 Map.empty 2"

definition r_op1 :: operation where
  "r_op1 = plain_op 31 [kTpuReplicateAttr \<mapsto> ''c1''] [20] tensor_f32"

definition r_op2 :: operation where
  "r_op2 = plain_op 41 Map.empty [20] tensor_f32"

definition r_module :: operation where
  "r_module = module_of [island 10 [] c1_meta, island 20 [used_by tensor_f32 [31, 41]] r_rep,
                         island 30 [used_by tensor_f32 []] r_op1,
                         island 40 [used_by tensor_f32 []] r_op2]"

text \<open>
  Scenario E: a plain operation of the cluster \<open>c1\<close> feeds a plain operation without
  cluster identifier.
\<close>

definition e_op1 :: operation where
  "e_op1 = plain_op 31 [kTpuReplicateAttr \<mapsto> ''c1''] [] tensor_f32"

definition e_op2 :: operation where
  "e_op2 = plain_op 41 Map.empty [30] tensor_f32"

definition e_module :: operation where
  "e_module = module_of [island 10 [] c1_meta, island 30 [used_by tensor_f32 [41]] e_op1,
                         island 40 [used_by tensor_f32 []] e_op2]"

text \<open>
  Empty cluster identifiers: on a metadata operation (\<open>z_meta\<close>) and on a plain operation
  (\<open>y_op\<close>). The module \<open>w_module\<close> holds \<open>y_op\<close> and an operation that must and must not
  be compiled.
\<close>

definition z_meta :: operation where
  "z_meta = metadata_op 11 [] 2 2"

definition z_module :: operation where
  "z_module = module_of [island 10 [] z_meta]"

definition y_op :: operation where
  "y_op = plain_op 31 [kTpuReplicateAttr \<mapsto> []] [] tensor_f32"

definition y_module :: operation where
  "y_module = module_of [island 30 [used_by tensor_f32 []] y_op]"

definition w_op :: operation where
  "w_op = plain_op 41 [kTpuReplicateAttr \<mapsto> ''c1''] [] tensor_string"

definition w_module :: operation where
  "w_module = module_of [island 10 [] c1_meta, island 30 [used_by tensor_f32 []] y_op,
                         island 40 [used_by tensor_string []] w_op]"

text \<open>
  A partitioned input with one operand, in a module whose only cluster has two cores per
  replica; it feeds a plain operation without cluster identifier.
\<close>

definition p_in :: operation where
  "p_in = Operation (mk_data 21 TPUPartitionedInputOp Map.empty [block_arg tensor_f32]
                       [used_by tensor_f32 [22]]) []"

definition p_op :: operation where
  "p_op = plain_op 31 Map.empty [20] tensor_f32"

definition p_module :: operation where
  "p_module = module_of [island 10 [] c1_meta, island 20 [used_by tensor_f32 [31]] p_in,
                         island 30 [used_by tensor_f32 []] p_op]"

section \<open>Properties of the combinators\<close>

lemma and_then_passed [simp]: "and_then (True, []) b = b"
  by (simp add: and_then_def)

lemma and_then_passed_right [simp]: "and_then a (True, []) = a"
  by (cases a) (simp add: and_then_def)

lemma fst_and_then: "fst (and_then a b) = (fst a \<and> fst b)"
  by (simp add: and_then_def)

lemma snd_and_then: "snd (and_then a b) = (if fst a then snd a @ snd b else snd a)"
  by (simp add: and_then_def)

lemma snd_and_then_mem:
  "d \<in> set (snd (and_then a b)) \<Longrightarrow> d \<in> set (snd a) \<or> d \<in> set (snd b)"
  by (auto simp: snd_and_then split: if_splits)

lemma snd_run_if_mem: "d \<in> set (snd (run_if c r)) \<Longrightarrow> c \<and> d \<in> set (snd r)"
  by (auto simp: run_if_def split: if_splits)

lemma delegate_bodies:
  "run_if False r = (True, [])"
  "and_then (run_if (\<not> R) X) (run_if R Y) = (if R then Y else X)"
  by (simp_all add: run_if_def)

lemma delegate_never [simp]:
  "(case m of None \<Rightarrow> (True, []) | Some md \<Rightarrow> run_if (False \<and> c md) (f md)) = (True, [])"
  by (cases m) (simp_all add: run_if_def)

lemma for_each_passed [simp]: "for_each (\<lambda>x. (True, [])) xs = (True, [])"
  by (induction xs) simp_all

lemma fst_for_each: "fst (for_each body xs) = (\<forall>x\<in>set xs. fst (body x))"
  by (induction xs) (simp_all add: fst_and_then)

lemma snd_for_each_mem:
  "d \<in> set (snd (for_each body xs)) \<Longrightarrow> \<exists>x\<in>set xs. d \<in> set (snd (body x))"
proof (induction xs)
  case Nil
  then show ?case by simp
next
  case (Cons x xs)
  then show ?case
    by (auto simp: snd_and_then split: if_splits)
qed

text \<open>A loop that fails has emitted the diagnostics of the element it failed on.\<close>

lemma for_each_failure_reported:
  "\<not> fst (for_each body xs) \<Longrightarrow>
   \<exists>x\<in>set xs. \<not> fst (body x) \<and> set (snd (body x)) \<subseteq> set (snd (for_each body xs))"
proof (induction xs)
  case Nil
  then show ?case by simp
next
  case (Cons x xs)
  show ?case
  proof (cases "fst (body x)")
    case True
    with Cons.prems have "\<not> fst (for_each body xs)"
      by (simp add: fst_and_then)
    from Cons.IH [OF this] obtain y where
      y: "y \<in> set xs" "\<not> fst (body y)" "set (snd (body y)) \<subseteq> set (snd (for_each body xs))"
      by blast
    with True show ?thesis
      by (auto simp: snd_and_then)
  next
    case False
    then show ?thesis
      by (auto simp: snd_and_then)
  qed
qed

section \<open>Properties of the checks\<close>

subsection \<open>Classification\<close>

lemma IsIntersectionXlaNonXlaOps_iff:
  "IsIntersectionXlaNonXlaOps op = (registered (data op) \<notin> Some ` set intersection_ops)"
  by (auto simp: IsIntersectionXlaNonXlaOps_def count_list_0_iff split: option.splits)

lemma IsTpuRegularOp_iff:
  "IsTpuRegularOp op = (registered (data op) \<notin> Some ` set tpu_regular_ops)"
  by (auto simp: IsTpuRegularOp_def count_list_0_iff split: option.splits)

lemma regular_not_isa:
  "IsTpuRegularOp op \<Longrightarrow> k \<in> set tpu_regular_ops \<Longrightarrow> \<not> isa k op"
  by (auto simp: IsTpuRegularOp_def isa_def count_list_0_iff split: option.splits)

subsection \<open>Arities as 32-bit integers\<close>

lemma sint_arity: "n < 2 ^ 31 \<Longrightarrow> sint (of_nat n :: int32) = int n"
  by (simp add: signed_of_nat signed_take_bit_int_eq_self)

lemma arity_eq_iff: "n < 2 ^ 31 \<Longrightarrow> ((of_nat n :: int32) = N) = (int n = sint N)"
  using sint_arity [of n] word_eq_iff_signed [of "of_nat n :: int32" N, where ?'a = int]
  by simp

lemma arity_eq_1_iff: "n < 2 ^ 31 \<Longrightarrow> ((of_nat n :: int32) = 1) = (n = 1)"
  using arity_eq_iff [of n 1] by simp

subsection \<open>The verdicts of the single checks\<close>

lemma fst_CheckTpuReplicateAttr:
  "fst (CheckTpuReplicateAttr op attr rel rep) =
     (getAttr op kTpuReplicateAttr \<noteq> None \<and> getAttr op kTpuReplicateAttr = attr)"
  by (simp add: CheckTpuReplicateAttr_def hasAttr_def getAttr_def Let_def)

lemma fst_CheckNonClusterPredecessors:
  "fst (CheckNonClusterPredecessors p op mm) = (\<not> isa TPUReplicatedInputOp p)"
  using regular_not_isa [of p TPUReplicatedInputOp]
  by (auto simp: CheckNonClusterPredecessors_def tpu_regular_ops_def)

lemma fst_CheckNonClusterSuccessors:
  "fst (CheckNonClusterSuccessors s op mm) = (\<not> isa TPUReplicatedOutputOp s)"
  using regular_not_isa [of s TPUReplicatedOutputOp]
  by (auto simp: CheckNonClusterSuccessors_def tpu_regular_ops_def)

subsection \<open>The four cases of \<^verbatim>\<open>CheckOpsClusterIO\<close>\<close>

lemma CheckOpsClusterIO_empty:
  "getAttr op kTpuReplicateAttr = Some [] \<Longrightarrow>
   CheckOpsClusterIO g mm op = (False, [OpError (oid op) EmptyTpuReplicate])"
  by (simp add: CheckOpsClusterIO_def Let_def hasAttr_def getAttr_def)

lemma CheckOpsClusterIO_non_cluster:
  "\<not> hasAttr op kTpuReplicateAttr \<Longrightarrow>
   CheckOpsClusterIO g mm op =
     and_then (for_each (\<lambda>p. CheckNonClusterPredecessors p op mm) (GetPredecessors g op))
              (for_each (\<lambda>s. CheckNonClusterSuccessors s op mm) (GetSuccessors g op))"
  by (simp add: CheckOpsClusterIO_def Let_def hasAttr_def getAttr_def) (simp add: run_if_def)

lemma CheckOpsClusterIO_cluster_md:
  assumes "getAttr op kTpuReplicateAttr = Some c" "c \<noteq> []" "mm c = Some md"
  shows "CheckOpsClusterIO g mm op =
     and_then
       (for_each (\<lambda>p. run_if (\<not> IsTpuRegularOp p) (CheckReplicatedIOOp g p md op))
          (GetPredecessors g op))
       (for_each (\<lambda>s. if IsTpuRegularOp s then CheckClusterSuccessors s c op mm
                       else CheckReplicatedIOOp g s md op)
          (GetSuccessors g op))"
  using assms
  by (simp add: CheckOpsClusterIO_def Let_def hasAttr_def getAttr_def delegate_bodies)

lemma CheckOpsClusterIO_cluster_no_md:
  assumes "getAttr op kTpuReplicateAttr = Some c" "c \<noteq> []" "mm c = None"
  shows "CheckOpsClusterIO g mm op =
     for_each (\<lambda>s. run_if (IsTpuRegularOp s) (CheckClusterSuccessors s c op mm))
       (GetSuccessors g op)"
  using assms
  by (simp add: CheckOpsClusterIO_def Let_def hasAttr_def getAttr_def) (simp add: run_if_def)

subsection \<open>Where the diagnostics come from\<close>

lemma CheckTpuReplicateAttr_diags:
  "d \<in> set (snd (CheckTpuReplicateAttr op attr rel rep)) \<Longrightarrow>
   \<exists>m. d = OpError (oid op) m \<and> \<not> is_arity_message m \<and> m \<noteq> BothXlaAndNonXla"
  by (auto simp: CheckTpuReplicateAttr_def Let_def is_arity_message_def split: if_splits)

lemma ValidateReplicatedInput_diags:
  "d \<in> set (snd (ValidateReplicatedInput g rep n attr)) \<Longrightarrow>
   \<exists>i m. d = OpError i m \<and> m \<noteq> BothXlaAndNonXla \<and> (is_arity_message m \<longrightarrow> i = oid rep)"
  by (auto simp: ValidateReplicatedInput_def Let_def split: if_splits
      dest!: snd_for_each_mem CheckTpuReplicateAttr_diags)

lemma ValidateReplicatedOutput_diags:
  "d \<in> set (snd (ValidateReplicatedOutput g rep n attr)) \<Longrightarrow>
   \<exists>i m. d = OpError i m \<and> m \<noteq> BothXlaAndNonXla \<and> (is_arity_message m \<longrightarrow> i = oid rep)"
  by (auto simp: ValidateReplicatedOutput_def Let_def split: if_splits
      dest!: snd_for_each_mem CheckTpuReplicateAttr_diags)

lemma ValidatePartitioned_diags:
  "d \<in> set (snd (ValidatePartitionedInput rep n)) \<Longrightarrow>
     \<exists>i m. d = OpError i m \<and> m \<noteq> BothXlaAndNonXla \<and> (is_arity_message m \<longrightarrow> i = oid rep)"
  "d \<in> set (snd (ValidatePartitionedInputV2 rep n)) \<Longrightarrow>
     \<exists>i m. d = OpError i m \<and> m \<noteq> BothXlaAndNonXla \<and> (is_arity_message m \<longrightarrow> i = oid rep)"
  "d \<in> set (snd (ValidatePartitionedOutput rep n)) \<Longrightarrow>
     \<exists>i m. d = OpError i m \<and> m \<noteq> BothXlaAndNonXla \<and> (is_arity_message m \<longrightarrow> i = oid rep)"
  by (auto simp: ValidatePartitionedInput_def ValidatePartitionedInputV2_def
      ValidatePartitionedOutput_def Let_def split: if_splits)

lemma CheckReplicatedIOOp_diags:
  assumes "d \<in> set (snd (CheckReplicatedIOOp g x md parent))"
  shows "\<exists>i m. d = OpError i m \<and> m \<noteq> BothXlaAndNonXla \<and> (is_arity_message m \<longrightarrow> i = oid x)"
proof -
  from assms consider
      "d \<in> set (snd (ValidateReplicatedInput g x (word_of_int (num_replicas (data md)))
                       (getAttr md kTpuReplicateAttr)))"
    | "d \<in> set (snd (ValidateReplicatedOutput g x (word_of_int (num_replicas (data md)))
                       (getAttr md kTpuReplicateAttr)))"
    | "d \<in> set (snd (ValidatePartitionedInput x (word_of_int (num_cores_per_replica (data md)))))"
    | "d \<in> set (snd (ValidatePartitionedInputV2 x (word_of_int (num_cores_per_replica (data md)))))"
    | "d \<in> set (snd (ValidatePartitionedOutput x (word_of_int (num_cores_per_replica (data md)))))"
    unfolding CheckReplicatedIOOp_def Let_def
    by (blast dest: snd_and_then_mem snd_run_if_mem)
  then show ?thesis
    by cases (blast dest: ValidateReplicatedInput_diags ValidateReplicatedOutput_diags
        ValidatePartitioned_diags)+
qed

lemma boundary_diags:
  "d \<in> set (snd (CheckNonClusterPredecessors p op mm)) \<Longrightarrow>
     d = OpError (oid p) (InvalidPredecessor (oid op)) \<and> isa TPUReplicatedInputOp p"
  "d \<in> set (snd (CheckNonClusterSuccessors s op mm)) \<Longrightarrow>
     d = OpError (oid s) (InvalidSuccessor (oid op)) \<and> isa TPUReplicatedOutputOp s"
  by (auto simp: CheckNonClusterPredecessors_def CheckNonClusterSuccessors_def split: if_splits)

text \<open>
  \<^verbatim>\<open>CheckOpsClusterIO\<close> never reports a conflict of compilation, and it reports an
  arity only on a neighbour of an operation whose cluster has metadata.
\<close>

lemma CheckOpsClusterIO_diags:
  assumes "d \<in> set (snd (CheckOpsClusterIO g mm op))"
  shows "(\<forall>i. d \<noteq> OpError i BothXlaAndNonXla)
         \<and> (\<forall>i m. d = OpError i m \<longrightarrow> is_arity_message m \<longrightarrow>
               (\<exists>c md. getAttr op kTpuReplicateAttr = Some c \<and> mm c = Some md)
               \<and> i \<in> oid ` (set (GetPredecessors g op) \<union> set (GetSuccessors g op)))"
proof (cases "getAttr op kTpuReplicateAttr")
  case None
  then have "\<not> hasAttr op kTpuReplicateAttr"
    by (simp add: hasAttr_def getAttr_def)
  from assms [unfolded CheckOpsClusterIO_non_cluster [OF this]] show ?thesis
    by (auto simp: is_arity_message_def
        dest!: snd_and_then_mem snd_for_each_mem boundary_diags)
next
  case (Some c)
  show ?thesis
  proof (cases "c = []")
    case True
    with Some assms show ?thesis
      by (simp add: CheckOpsClusterIO_empty is_arity_message_def)
  next
    case False
    show ?thesis
    proof (cases "mm c")
      case None
      from assms [unfolded CheckOpsClusterIO_cluster_no_md [where mm = mm, OF Some False None]]
      obtain s where "d \<in> set (snd (CheckClusterSuccessors s c op mm))"
        by (blast dest: snd_for_each_mem snd_run_if_mem)
      then show ?thesis
        by (auto simp: CheckClusterSuccessors_def Let_def is_arity_message_def split: if_splits)
    next
      case Some2: (Some md)
      from assms [unfolded CheckOpsClusterIO_cluster_md [where mm = mm, OF Some False Some2]]
      consider
          p where "p \<in> set (GetPredecessors g op)" "d \<in> set (snd (CheckReplicatedIOOp g p md op))"
        | s where "s \<in> set (GetSuccessors g op)" "d \<in> set (snd (CheckReplicatedIOOp g s md op))"
        | s where "d \<in> set (snd (CheckClusterSuccessors s c op mm))"
        by (auto dest!: snd_and_then_mem snd_for_each_mem snd_run_if_mem split: if_splits)
      then show ?thesis
      proof cases
        case 1
        with CheckReplicatedIOOp_diags [OF 1(2)] Some Some2 show ?thesis by auto
      next
        case 2
        with CheckReplicatedIOOp_diags [OF 2(2)] Some Some2 show ?thesis by auto
      next
        case 3
        then show ?thesis
          by (auto simp: CheckClusterSuccessors_def Let_def is_arity_message_def split: if_splits)
      qed
    qed
  qed
qed

lemma ValidateIntersection_diags:
  "snd (ValidateIntersectionXlaNonXlaOps op mm) =
     (if fst (ValidateIntersectionXlaNonXlaOps op mm) then [] else [OpError (oid op) BothXlaAndNonXla])"
  by (simp add: ValidateIntersectionXlaNonXlaOps_def)

subsection \<open>The delegated check, in terms of the metadata it is given\<close>

lemma fst_run_if: "fst (run_if c r) = (c \<longrightarrow> fst r)"
  by (simp add: run_if_def)

lemma fst_ValidateReplicatedInput:
  "fst (ValidateReplicatedInput g rep N attr) =
     ((if is_packed (data rep) then input_arity rep = 1 else input_arity rep = N)
      \<and> (\<forall>s\<in>set (GetSuccessors g rep). IsTpuRegularOp s \<longrightarrow>
            getAttr s kTpuReplicateAttr \<noteq> None \<and> getAttr s kTpuReplicateAttr = attr))"
  by (auto simp: ValidateReplicatedInput_def Let_def fst_for_each fst_CheckTpuReplicateAttr)

lemma fst_ValidateReplicatedOutput:
  "fst (ValidateReplicatedOutput g rep N attr) =
     (output_arity rep = N
      \<and> (\<forall>q\<in>set (GetPredecessors g rep). IsTpuRegularOp q \<longrightarrow>
            getAttr q kTpuReplicateAttr \<noteq> None \<and> getAttr q kTpuReplicateAttr = attr))"
  by (auto simp: ValidateReplicatedOutput_def Let_def fst_for_each fst_CheckTpuReplicateAttr)

lemma fst_ValidatePartitioned:
  "fst (ValidatePartitionedInput rep N) = (input_arity rep = N)"
  "fst (ValidatePartitionedInputV2 rep N) =
     (if is_packed (data rep) then input_arity rep = 1 else input_arity rep = N)"
  "fst (ValidatePartitionedOutput rep N) = (output_arity rep = N)"
  by (simp_all add: ValidatePartitionedInput_def ValidatePartitionedInputV2_def
      ValidatePartitionedOutput_def Let_def)

lemma fst_CheckReplicatedIOOp:
  "fst (CheckReplicatedIOOp g p md parent) =
     ((isa TPUReplicatedInputOp p \<longrightarrow>
         (if is_packed (data p) then input_arity p = 1 else input_arity p = replicas_of md)
         \<and> (\<forall>s\<in>set (GetSuccessors g p). IsTpuRegularOp s \<longrightarrow>
               getAttr s kTpuReplicateAttr \<noteq> None
               \<and> getAttr s kTpuReplicateAttr = getAttr md kTpuReplicateAttr))
      \<and> (isa TPUReplicatedOutputOp p \<longrightarrow>
           output_arity p = replicas_of md
           \<and> (\<forall>q\<in>set (GetPredecessors g p). IsTpuRegularOp q \<longrightarrow>
                 getAttr q kTpuReplicateAttr \<noteq> None
                 \<and> getAttr q kTpuReplicateAttr = getAttr md kTpuReplicateAttr))
      \<and> (isa TPUPartitionedInputOp p \<longrightarrow> input_arity p = cores_of md)
      \<and> (isa TPUPartitionedInputV2Op p \<longrightarrow>
           (if is_packed (data p) then input_arity p = 1 else input_arity p = cores_of md))
      \<and> (isa TPUPartitionedOutputOp p \<or> isa TPUPartitionedOutputV2Op p \<longrightarrow>
           output_arity p = cores_of md))"
  unfolding CheckReplicatedIOOp_def Let_def fst_and_then fst_run_if
    fst_ValidateReplicatedInput fst_ValidateReplicatedOutput fst_ValidatePartitioned
  by blast

text \<open>An operation has one kind, so the delegated check is the check of that kind.\<close>

lemma CheckReplicatedIOOp_replicated_input:
  "isa TPUReplicatedInputOp p \<Longrightarrow>
   CheckReplicatedIOOp g p md parent =
     ValidateReplicatedInput g p (replicas_of md) (getAttr md kTpuReplicateAttr)"
  by (simp add: CheckReplicatedIOOp_def Let_def isa_def run_if_def)

lemma CheckReplicatedIOOp_replicated_output:
  "isa TPUReplicatedOutputOp p \<Longrightarrow>
   CheckReplicatedIOOp g p md parent =
     ValidateReplicatedOutput g p (replicas_of md) (getAttr md kTpuReplicateAttr)"
  by (simp add: CheckReplicatedIOOp_def Let_def isa_def run_if_def)

lemma CheckReplicatedIOOp_partitioned:
  "isa TPUPartitionedInputOp p \<Longrightarrow>
     CheckReplicatedIOOp g p md parent = ValidatePartitionedInput p (cores_of md)"
  "isa TPUPartitionedInputV2Op p \<Longrightarrow>
     CheckReplicatedIOOp g p md parent = ValidatePartitionedInputV2 p (cores_of md)"
  "isa TPUPartitionedOutputOp p \<or> isa TPUPartitionedOutputV2Op p \<Longrightarrow>
     CheckReplicatedIOOp g p md parent = ValidatePartitionedOutput p (cores_of md)"
  by (auto simp: CheckReplicatedIOOp_def Let_def isa_def run_if_def)

lemma CheckReplicatedIOOp_arity_diagnostics:
  "isa TPUReplicatedInputOp p \<and> is_packed (data p) \<and> input_arity p \<noteq> 1 \<longrightarrow>
     CheckReplicatedIOOp g p md parent =
       (False, [OpError (oid p) (PackedInputsNot1 NumReplicas (replicas_of md) (input_arity p))])"
  "isa TPUReplicatedInputOp p \<and> \<not> is_packed (data p) \<and> input_arity p \<noteq> replicas_of md \<longrightarrow>
     CheckReplicatedIOOp g p md parent =
       (False, [OpError (oid p) (InputsInconsistent NumReplicas (replicas_of md) (input_arity p))])"
  "isa TPUReplicatedOutputOp p \<and> output_arity p \<noteq> replicas_of md \<longrightarrow>
     CheckReplicatedIOOp g p md parent =
       (False, [OpError (oid p)
          (OutputsInconsistent NumReplicas (replicas_of md) (output_arity p))])"
  "isa TPUPartitionedInputOp p \<and> input_arity p \<noteq> cores_of md \<longrightarrow>
     CheckReplicatedIOOp g p md parent =
       (False, [OpError (oid p)
          (InputsInconsistent NumCoresPerReplica (cores_of md) (input_arity p))])"
  "isa TPUPartitionedInputV2Op p \<and> is_packed (data p) \<and> input_arity p \<noteq> 1 \<longrightarrow>
     CheckReplicatedIOOp g p md parent =
       (False, [OpError (oid p)
          (PackedInputsNot1 NumCoresPerReplica (cores_of md) (input_arity p))])"
  "isa TPUPartitionedInputV2Op p \<and> \<not> is_packed (data p) \<and> input_arity p \<noteq> cores_of md \<longrightarrow>
     CheckReplicatedIOOp g p md parent =
       (False, [OpError (oid p)
          (InputsInconsistent NumCoresPerReplica (cores_of md) (input_arity p))])"
  "(isa TPUPartitionedOutputOp p \<or> isa TPUPartitionedOutputV2Op p)
     \<and> output_arity p \<noteq> cores_of md \<longrightarrow>
     CheckReplicatedIOOp g p md parent =
       (False, [OpError (oid p)
          (OutputsInconsistent NumCoresPerReplica (cores_of md) (output_arity p))])"
  by (auto simp: CheckReplicatedIOOp_replicated_input CheckReplicatedIOOp_replicated_output
      CheckReplicatedIOOp_partitioned ValidateReplicatedInput_def ValidateReplicatedOutput_def
      ValidatePartitionedInput_def ValidatePartitionedInputV2_def ValidatePartitionedOutput_def
      Let_def)

text \<open>A delegated check that fails makes the check of the delegating operation fail.\<close>

lemma delegated_failure_fails:
  assumes "getAttr op kTpuReplicateAttr = Some c" "c \<noteq> []" "mm c = Some md"
    and "p \<in> set (GetPredecessors g op) \<union> set (GetSuccessors g op)"
    and "\<not> IsTpuRegularOp p" "\<not> fst (CheckReplicatedIOOp g p md op)"
  shows "\<not> fst (CheckOpsClusterIO g mm op)"
  using assms(4-6)
  unfolding CheckOpsClusterIO_cluster_md [where mm = mm, OF assms(1-3)] fst_and_then fst_for_each
    fst_run_if
  by auto

subsection \<open>The delegated check does not read the cluster identifier of the operation it checks\<close>

lemma data_set_cluster_attr:
  "op_id (data (set_cluster_attr v p)) = op_id (data p)"
  "registered (data (set_cluster_attr v p)) = registered (data p)"
  "is_packed (data (set_cluster_attr v p)) = is_packed (data p)"
  "operands (data (set_cluster_attr v p)) = operands (data p)"
  "results (data (set_cluster_attr v p)) = results (data p)"
  by (simp_all add: set_cluster_attr_def)

lemma GetSuccessors_set_cluster_attr:
  "GetSuccessors g (set_cluster_attr v p) = GetSuccessors g p"
  by (simp add: GetSuccessors_def getParentOp_def set_cluster_attr_def)

lemma GetPredecessors_set_cluster_attr:
  "GetPredecessors g (set_cluster_attr v p) = GetPredecessors g p"
  by (simp add: GetPredecessors_def set_cluster_attr_def)

lemma CheckReplicatedIOOp_set_cluster_attr:
  "CheckReplicatedIOOp g (set_cluster_attr v p) md parent = CheckReplicatedIOOp g p md parent"
  by (simp add: CheckReplicatedIOOp_def ValidateReplicatedInput_def ValidateReplicatedOutput_def
      ValidatePartitionedInput_def ValidatePartitionedInputV2_def ValidatePartitionedOutput_def
      isa_def data_set_cluster_attr GetSuccessors_set_cluster_attr
      GetPredecessors_set_cluster_attr Let_def run_if_def
      cong: if_cong)

subsection \<open>The driver\<close>

lemma check_op_accumulate: "check_op g mm st op = accumulate st (check_op g mm (True, []) op)"
  by (simp add: check_op_def accumulate_def Let_def)

lemma foldl_check_op:
  "foldl (check_op g mm) st ops =
     accumulate st (list_all (\<lambda>op. fst (check_op g mm (True, []) op)) ops,
                    concat (map (\<lambda>op. snd (check_op g mm (True, []) op)) ops))"
proof (induction ops arbitrary: st)
  case Nil
  then show ?case by (simp add: accumulate_def)
next
  case (Cons op ops)
  show ?case
    by (simp add: Cons.IH, subst check_op_accumulate, simp add: accumulate_def)
qed

lemma fst_check_op:
  "fst (check_op g mm (True, []) op) =
     ((IsTpuRegularOp op \<longrightarrow> fst (CheckOpsClusterIO g mm op))
      \<and> (IsIntersectionXlaNonXlaOps op \<longrightarrow> fst (ValidateIntersectionXlaNonXlaOps op mm)))"
  by (simp add: check_op_def accumulate_def Let_def)

lemma snd_check_op:
  "snd (check_op g mm (True, []) op) =
     (if IsTpuRegularOp op then snd (CheckOpsClusterIO g mm op) else [])
     @ (if IsIntersectionXlaNonXlaOps op then snd (ValidateIntersectionXlaNonXlaOps op mm) else [])"
  by (simp add: check_op_def accumulate_def Let_def)

lemma runOnOperation_result:
  "collect_metadata (walk g) Map.empty = Some mm \<Longrightarrow>
   runOnOperation g =
     Some (list_all (\<lambda>op. fst (check_op g mm (True, []) op)) (walk g),
           concat (map (\<lambda>op. snd (check_op g mm (True, []) op)) (walk g)))"
  by (simp add: runOnOperation_def foldl_check_op accumulate_def)

text \<open>The pass gives a verdict exactly when every metadata operation carries the attribute.\<close>

lemma collect_metadata_returns:
  "(\<exists>mm'. collect_metadata ops mm = Some mm') =
     (\<forall>op\<in>set ops. isa TPUReplicateMetadataOp op \<longrightarrow> hasAttr op kTpuReplicateAttr)"
  by (induction ops arbitrary: mm) (auto simp: hasAttr_def getAttr_def split: option.splits)

lemma runOnOperation_returns:
  "(\<exists>r. runOnOperation g = Some r) =
     (\<forall>op\<in>set (walk g). isa TPUReplicateMetadataOp op \<longrightarrow> hasAttr op kTpuReplicateAttr)"
  using collect_metadata_returns [of "walk g" Map.empty]
  by (auto simp: runOnOperation_def split: option.splits)

lemma node_failure_fails_stage:
  assumes "collect_metadata (walk g) Map.empty = Some mm" "op \<in> set (walk g)"
    and "\<not> fst (check_op g mm (True, []) op)" "d \<in> set (snd (check_op g mm (True, []) op))"
  shows "\<exists>ds. runOnOperation g = Some (False, ds) \<and> d \<in> set ds"
  using assms by (auto simp: runOnOperation_result list_all_iff)

section \<open>The example modules, evaluated\<close>

lemma walk_leaf: "regions op = [] \<Longrightarrow> walk op = [op]"
  by (cases op) simp

lemma walk_island:
  "walk (island i rs op) =
     walk op @ [Operation (mk_data (i + 2) YieldOp Map.empty
                  (map (\<lambda>r. result_of (oid op) (result_type r)) (results (data op))) []) [],
                island i rs op]"
  by (simp add: island_def)

lemma walk_module_of:
  "walk (module_of islands) =
     concat (map walk islands)
     @ [Operation (mk_data 3 FetchOp Map.empty [] []) [],
        Operation (mk_data 2 GraphOp Map.empty [] [])
             (islands @ [Operation (mk_data 3 FetchOp Map.empty [] []) []]),
        Operation (mk_data 4 ReturnOp Map.empty [] []) [],
        Operation (mk_data 1 FuncOp Map.empty [] [])
          [Operation (mk_data 2 GraphOp Map.empty [] [])
             (islands @ [Operation (mk_data 3 FetchOp Map.empty [] []) []]),
           Operation (mk_data 4 ReturnOp Map.empty [] []) []],
        module_of islands]"
  by (simp add: module_of_def)

lemma leaves:
  "regions (metadata_op i c n m) = []"
  "regions (replicated_input i a k) = []"
  "regions (plain_op i a ins t) = []"
  "regions k_op = []" "regions p_in = []"
  by (simp_all add: metadata_op_def replicated_input_def plain_op_def k_op_def p_in_def)

lemma data_builders:
  "data (module_of islands) = mk_data 0 ModuleOp Map.empty [] []"
  "data (island i rs op) = mk_data i IslandOp Map.empty [] rs"
  by (simp_all add: module_of_def island_def)

lemmas walk_examples = walk_module_of walk_island walk_leaf leaves data_builders

lemmas example_ops = c1_meta_def c2_meta_def metadata_op_def replicated_input_def plain_op_def
  mk_data_def

lemma operand_counts:
  "length (operands (data (replicated_input i a k))) = k"
  "length (operands (data packed_rep)) = 2"
  by (simp_all add: replicated_input_def packed_rep_def mk_data_def)

lemma collect_a: "collect_metadata (walk a_module) Map.empty = Some cluster_c1"
  by (simp add: a_module_def a_op_def a_rep_def walk_examples isa_def getAttr_def example_ops
      cluster_c1_def)

lemma collect_d: "collect_metadata (walk d_module) Map.empty = Some cluster_c1"
  by (simp add: d_module_def d_op_def walk_examples isa_def getAttr_def example_ops cluster_c1_def)

lemma collect_k: "collect_metadata (walk k_module) Map.empty = Some cluster_c1"
  by (simp add: k_module_def k_op_def walk_examples isa_def getAttr_def example_ops cluster_c1_def)


lemma collect_p: "collect_metadata (walk p_module) Map.empty = Some cluster_c1"
  by (simp add: p_module_def p_in_def p_op_def walk_examples isa_def getAttr_def example_ops
      cluster_c1_def)

lemma collect_y: "collect_metadata (walk y_module) Map.empty = Some Map.empty"
  by (simp add: y_module_def y_op_def walk_examples isa_def getAttr_def example_ops)

lemma collect_z: "collect_metadata (walk z_module) Map.empty = Some [[] \<mapsto> z_meta]"
  by (simp add: z_module_def z_meta_def walk_examples isa_def getAttr_def example_ops)

lemma d_op_in: "d_op \<in> set (walk d_module)"
  by (simp add: d_module_def d_op_def c1_meta_def walk_examples)

lemma k_op_in: "k_op \<in> set (walk k_module)"
  by (simp add: k_module_def c1_meta_def walk_examples)

lemma y_op_in: "y_op \<in> set (walk y_module)"
  by (simp add: y_module_def y_op_def walk_examples)

lemma z_meta_in: "z_meta \<in> set (walk z_module)"
  by (simp add: z_module_def z_meta_def walk_examples)

lemma m_rep_pred: "m_rep \<in> set (GetPredecessors m_module a_op)"
  by (simp add: GetPredecessors_def lookup_op_def m_module_def a_op_def m_rep_def
      walk_examples example_ops result_of_def)

section \<open>The threaded pass agrees with the pass\<close>

lemma keeps_refl: "keeps s s"
  by (simp add: keeps_def)

lemma keeps_trans: "keeps s s' \<Longrightarrow> keeps s' s'' \<Longrightarrow> keeps s s''"
  by (auto simp: keeps_def)

lemma agrees_pure: "agrees (pure_in x) x"
  by (simp add: agrees_def pure_in_def keeps_refl)

lemma agrees_then:
  assumes "agrees m x" "agrees (k x) y"
  shows "agrees (then_in m k) y"
  unfolding agrees_def
proof (intro allI impI)
  fix s assume s: "valid_statics s"
  obtain x' s' where m: "m s = (x', s')"
    by (cases "m s")
  with assms(1) s have x': "x' = x" and s': "valid_statics s'" "keeps s s'"
    by (auto simp: agrees_def)
  from assms(2) s' have "fst (k x s') = y" "valid_statics (snd (k x s'))" "keeps s' (snd (k x s'))"
    by (auto simp: agrees_def)
  with m x' s'(2)
  show "fst (then_in m k s) = y \<and> valid_statics (snd (then_in m k s))
        \<and> keeps s (snd (then_in m k s))"
    by (auto simp: then_in_def intro: keeps_trans)
qed

lemma agrees_run_if: "agrees a r \<Longrightarrow> agrees (run_if_in c a) (run_if c r)"
  by (simp add: run_if_in_def run_if_def agrees_pure)

lemma agrees_and_then:
  assumes "agrees a r" "agrees b r'"
  shows "agrees (and_then_in a b) (and_then r r')"
proof -
  have "agrees (if fst r then then_in b (\<lambda>r'. pure_in (fst r', snd r @ snd r')) else pure_in r)
          (and_then r r')"
    using assms(2) by (auto simp: and_then_def intro: agrees_then agrees_pure)
  with assms(1) show ?thesis
    unfolding and_then_in_def by (rule agrees_then)
qed

lemma agrees_for_each:
  "(\<And>x. agrees (body_in x) (body x)) \<Longrightarrow> agrees (for_each_in body_in xs) (for_each body xs)"
  by (induction xs) (simp_all add: agrees_pure agrees_and_then)

lemma valid_statics_contents:
  assumes "valid_statics s"
  shows "(case regular_static s of None \<Rightarrow> tpu_regular_ops | Some ops \<Rightarrow> ops) = tpu_regular_ops"
    and "(case intersection_static s of None \<Rightarrow> intersection_ops | Some ops \<Rightarrow> ops)
           = intersection_ops"
  using assms by (auto simp: valid_statics_def)

lemma agrees_IsTpuRegularOp: "agrees (IsTpuRegularOp_in op) (IsTpuRegularOp op)"
  unfolding agrees_def
proof (intro allI impI)
  fix s assume "valid_statics s"
  then show "fst (IsTpuRegularOp_in op s) = IsTpuRegularOp op
             \<and> valid_statics (snd (IsTpuRegularOp_in op s))
             \<and> keeps s (snd (IsTpuRegularOp_in op s))"
    by (simp add: IsTpuRegularOp_in_def IsTpuRegularOp_def valid_statics_contents)
      (auto simp: valid_statics_def keeps_def)
qed

lemma agrees_IsIntersectionXlaNonXlaOps:
  "agrees (IsIntersectionXlaNonXlaOps_in op) (IsIntersectionXlaNonXlaOps op)"
  unfolding agrees_def
proof (intro allI impI)
  fix s assume "valid_statics s"
  then show "fst (IsIntersectionXlaNonXlaOps_in op s) = IsIntersectionXlaNonXlaOps op
             \<and> valid_statics (snd (IsIntersectionXlaNonXlaOps_in op s))
             \<and> keeps s (snd (IsIntersectionXlaNonXlaOps_in op s))"
    by (simp add: IsIntersectionXlaNonXlaOps_in_def IsIntersectionXlaNonXlaOps_def
        valid_statics_contents)
      (auto simp: valid_statics_def keeps_def)
qed

lemma agrees_map: "agrees m x \<Longrightarrow> agrees (then_in m (\<lambda>r. pure_in (f r))) (f x)"
  by (rule agrees_then) (assumption, rule agrees_pure)

lemma agrees_attr_check:
  "agrees (then_in (IsTpuRegularOp_in x)
             (\<lambda>regular. if \<not> regular then pure_in (True, []) else pure_in r))
     (if \<not> IsTpuRegularOp x then (True, []) else r)"
  by (rule agrees_then [OF agrees_IsTpuRegularOp]) (simp add: agrees_pure)

lemma agrees_ValidateReplicatedInput:
  "agrees (ValidateReplicatedInput_in g rep n attr) (ValidateReplicatedInput g rep n attr)"
  unfolding ValidateReplicatedInput_in_def ValidateReplicatedInput_def Let_def
  by (simp add: agrees_pure agrees_for_each agrees_attr_check)

lemma agrees_ValidateReplicatedOutput:
  "agrees (ValidateReplicatedOutput_in g rep n attr) (ValidateReplicatedOutput g rep n attr)"
  unfolding ValidateReplicatedOutput_in_def ValidateReplicatedOutput_def Let_def
  by (simp add: agrees_pure agrees_for_each agrees_attr_check)

lemma agrees_CheckReplicatedIOOp:
  "agrees (CheckReplicatedIOOp_in g op md parent) (CheckReplicatedIOOp g op md parent)"
  unfolding CheckReplicatedIOOp_in_def CheckReplicatedIOOp_def Let_def
  by (intro agrees_and_then agrees_run_if agrees_ValidateReplicatedInput
      agrees_ValidateReplicatedOutput agrees_pure)

lemma agrees_CheckNonClusterSuccessors:
  "agrees (CheckNonClusterSuccessors_in op parent mm) (CheckNonClusterSuccessors op parent mm)"
  unfolding CheckNonClusterSuccessors_in_def CheckNonClusterSuccessors_def
  by (rule agrees_then [OF agrees_IsTpuRegularOp]) (simp add: agrees_pure)

lemma agrees_CheckNonClusterPredecessors:
  "agrees (CheckNonClusterPredecessors_in op parent mm) (CheckNonClusterPredecessors op parent mm)"
  unfolding CheckNonClusterPredecessors_in_def CheckNonClusterPredecessors_def
  by (rule agrees_then [OF agrees_IsTpuRegularOp]) (simp add: agrees_pure)

lemma agrees_delegate:
  "agrees (delegate_in g mm op is_cluster_op cluster x)
     (case mm cluster of
        None \<Rightarrow> (True, [])
      | Some md \<Rightarrow> run_if (is_cluster_op \<and> \<not> IsTpuRegularOp x) (CheckReplicatedIOOp g x md op))"
proof (cases is_cluster_op)
  case True
  have "agrees (then_in (IsTpuRegularOp_in x)
             (\<lambda>regular. case mm cluster of
                  None \<Rightarrow> pure_in (True, [])
                | Some md \<Rightarrow> run_if_in (\<not> regular) (CheckReplicatedIOOp_in g x md op)))
          (case mm cluster of
             None \<Rightarrow> (True, [])
           | Some md \<Rightarrow>
               run_if (is_cluster_op \<and> \<not> IsTpuRegularOp x) (CheckReplicatedIOOp g x md op))"
    by (rule agrees_then [OF agrees_IsTpuRegularOp])
      (simp add: True agrees_pure agrees_run_if agrees_CheckReplicatedIOOp split: option.splits)
  with True show ?thesis
    by (simp add: delegate_in_def)
next
  case False
  then show ?thesis
    by (simp add: delegate_in_def run_if_def agrees_pure split: option.splits)
qed

lemma agrees_cluster_successor:
  "agrees (if is_cluster_op
           then then_in (IsTpuRegularOp_in x)
                  (\<lambda>regular. run_if_in regular (pure_in (CheckClusterSuccessors x cluster op mm)))
           else pure_in (True, []))
     (run_if (is_cluster_op \<and> IsTpuRegularOp x) (CheckClusterSuccessors x cluster op mm))"
proof (cases is_cluster_op)
  case True
  have "agrees (then_in (IsTpuRegularOp_in x)
                  (\<lambda>regular. run_if_in regular (pure_in (CheckClusterSuccessors x cluster op mm))))
          (run_if (IsTpuRegularOp x) (CheckClusterSuccessors x cluster op mm))"
    by (rule agrees_then [OF agrees_IsTpuRegularOp]) (simp add: agrees_run_if agrees_pure)
  with True show ?thesis
    by simp
next
  case False
  then show ?thesis
    by (simp add: run_if_def agrees_pure)
qed

lemma agrees_CheckOpsClusterIO:
  "agrees (CheckOpsClusterIO_in g mm op) (CheckOpsClusterIO g mm op)"
  unfolding CheckOpsClusterIO_in_def CheckOpsClusterIO_def Let_def
  by (simp add: agrees_pure agrees_and_then agrees_for_each agrees_delegate
      agrees_cluster_successor agrees_run_if agrees_CheckNonClusterSuccessors
      agrees_CheckNonClusterPredecessors)

lemma agrees_check_op: "agrees (check_op_in g mm st op) (check_op g mm st op)"
proof -
  have 1: "agrees (if IsTpuRegularOp op
                   then then_in (CheckOpsClusterIO_in g mm op) (\<lambda>r. pure_in (accumulate st r))
                   else pure_in st)
             (if IsTpuRegularOp op then accumulate st (CheckOpsClusterIO g mm op) else st)"
    by (simp add: agrees_pure agrees_map [OF agrees_CheckOpsClusterIO])
  have 2: "agrees (then_in (IsIntersectionXlaNonXlaOps_in op)
                 (\<lambda>classified.
                    if classified
                    then pure_in (accumulate st1 (ValidateIntersectionXlaNonXlaOps op mm))
                    else pure_in st1))
             (if IsIntersectionXlaNonXlaOps op
              then accumulate st1 (ValidateIntersectionXlaNonXlaOps op mm) else st1)" for st1
    by (rule agrees_then [OF agrees_IsIntersectionXlaNonXlaOps]) (simp add: agrees_pure)
  have "agrees (then_in (if IsTpuRegularOp op
                   then then_in (CheckOpsClusterIO_in g mm op) (\<lambda>r. pure_in (accumulate st r))
                   else pure_in st)
            (\<lambda>st1.
               then_in (IsIntersectionXlaNonXlaOps_in op)
                 (\<lambda>classified.
                    if classified
                    then pure_in (accumulate st1 (ValidateIntersectionXlaNonXlaOps op mm))
                    else pure_in st1)))
          (check_op g mm st op)"
    unfolding check_op_def Let_def
    by (rule agrees_then [OF 1]) (rule 2)
  then show ?thesis
    unfolding check_op_in_def
    by (intro agrees_then [OF agrees_IsTpuRegularOp])
qed

lemma agrees_walk_in: "agrees (walk_in g mm ops st) (foldl (check_op g mm) st ops)"
proof (induction ops arbitrary: st)
  case Nil
  show ?case by (simp add: agrees_pure)
next
  case (Cons op ops)
  show ?case
    unfolding walk_in.simps foldl_Cons
    by (rule agrees_then [OF agrees_check_op]) (rule Cons.IH)
qed

lemma agrees_runOnOperation: "agrees (runOnOperation_in g) (runOnOperation g)"
proof (cases "collect_metadata (walk g) Map.empty")
  case None
  then show ?thesis
    by (simp add: runOnOperation_in_def runOnOperation_def agrees_pure)
next
  case (Some mm)
  then show ?thesis
    by (simp add: runOnOperation_in_def runOnOperation_def agrees_map [OF agrees_walk_in])
qed

section \<open>The claims\<close>

subsection \<open>C1: the classifier of intersection candidates and its use by the driver\<close>

text \<open>
  Claim C1, as stated, says that \<open>IsIntersectionXlaNonXlaOps\<close> holds exactly for the kinds
  of the intersection set and for unregistered operations. The code returns
  \<^verbatim>\<open>ops->count(...) == 0\<close>: it holds for the kinds \<^emph>\<open>outside\<close> the set (and for unregistered
  operations), so a constant is not classified. The skip list of
  \<^verbatim>\<open>ValidateIntersectionXlaNonXlaOps\<close>, seven kinds that are all outside the set, shows
  that the validator is meant to see the kinds outside the set.
\<close>

theorem const_is_not_classified:
  "registered (data k_op) = Some ConstOp \<and> is_intersection_candidate k_op
   \<and> \<not> IsIntersectionXlaNonXlaOps k_op"
  by code_simp

text \<open>
  Claim C1, amended: the classifier holds exactly when the kind is unregistered or is not
  one of the seven kinds of the intersection set; the step of the checking walk
  accumulates the result of \<open>ValidateIntersectionXlaNonXlaOps\<close> exactly when the
  classifier holds (after the result of \<open>CheckOpsClusterIO\<close>, which is run exactly on the
  plain operations); and the diagnostic of the validator is among those of the step
  exactly when the operation is classified and the validator fails on it.
\<close>

theorem classifier_and_dispatch:
  "(IsIntersectionXlaNonXlaOps op =
      (registered (data op) \<notin>
         {Some ConstOp, Some WhileOp, Some AssertOp, Some IdentityOp,
          Some StatefulPartitionedCallOp, Some TensorArrayV3Op,
          Some XlaSetDynamicDimensionSizeOp}))
   \<and> check_op g mm st op =
        accumulate
          (accumulate st (run_if (IsTpuRegularOp op) (CheckOpsClusterIO g mm op)))
          (run_if (IsIntersectionXlaNonXlaOps op) (ValidateIntersectionXlaNonXlaOps op mm))
   \<and> (OpError i BothXlaAndNonXla \<in> set (snd (check_op g mm (True, []) op)) =
        (IsIntersectionXlaNonXlaOps op \<and> i = oid op
         \<and> \<not> fst (ValidateIntersectionXlaNonXlaOps op mm)))"
proof (intro conjI)
  show "IsIntersectionXlaNonXlaOps op =
      (registered (data op) \<notin>
         {Some ConstOp, Some WhileOp, Some AssertOp, Some IdentityOp,
          Some StatefulPartitionedCallOp, Some TensorArrayV3Op,
          Some XlaSetDynamicDimensionSizeOp})"
    by (simp add: IsIntersectionXlaNonXlaOps_iff intersection_ops_def image_iff)
  show "check_op g mm st op =
        accumulate
          (accumulate st (run_if (IsTpuRegularOp op) (CheckOpsClusterIO g mm op)))
          (run_if (IsIntersectionXlaNonXlaOps op) (ValidateIntersectionXlaNonXlaOps op mm))"
    by (simp add: check_op_def accumulate_def run_if_def Let_def)
  have "OpError i BothXlaAndNonXla \<notin> set (snd (CheckOpsClusterIO g mm op))"
    using CheckOpsClusterIO_diags [of "OpError i BothXlaAndNonXla" g mm op] by blast
  then show "OpError i BothXlaAndNonXla \<in> set (snd (check_op g mm (True, []) op)) =
        (IsIntersectionXlaNonXlaOps op \<and> i = oid op
         \<and> \<not> fst (ValidateIntersectionXlaNonXlaOps op mm))"
    by (auto simp: snd_check_op ValidateIntersection_diags)
qed

theorem classifier_and_dispatch_witness:
  "IsIntersectionXlaNonXlaOps d_op \<and> registered (data d_op) = Some (OtherOp ''tf.A'')
   \<and> oid d_op = 31 \<and> \<not> fst (ValidateIntersectionXlaNonXlaOps d_op cluster_c1)
   \<and> OpError 31 BothXlaAndNonXla \<in> set (snd (check_op d_module cluster_c1 (True, []) d_op))"
proof -
  have "IsIntersectionXlaNonXlaOps d_op" "registered (data d_op) = Some (OtherOp ''tf.A'')"
    "oid d_op = 31" "\<not> fst (ValidateIntersectionXlaNonXlaOps d_op cluster_c1)"
    by code_simp+
  with classifier_and_dispatch [where op = d_op and g = d_module and mm = cluster_c1 and i = 31,
      THEN conjunct2, THEN conjunct2]
  show ?thesis by simp
qed

subsection \<open>C2: an operation that must and must not be compiled\<close>

text \<open>
  Claim C2, as stated, is about the operations whose kind is in the intersection set. A
  constant of the cluster \<open>c1\<close> (soft placement disabled, no outside compilation marker)
  with a string result must be compiled and must not be compiled, and the pass reports
  success without a diagnostic: the classifier keeps the validator away from the kinds of
  the intersection set.
\<close>

theorem const_conflict_passes:
  "well_formed_module k_module
   \<and> registered (data k_op) = Some ConstOp
   \<and> k_op \<in> set (walk k_module)
   \<and> collect_metadata (walk k_module) Map.empty = Some cluster_c1
   \<and> IsMustBeXlaOp k_op cluster_c1 \<and> IsMustNotBeXlaOp k_op
   \<and> runOnOperation k_module = Some (True, [])"
proof -
  have "well_formed_module k_module"
    "registered (data k_op) = Some ConstOp" "IsMustBeXlaOp k_op cluster_c1"
    "IsMustNotBeXlaOp k_op" "runOnOperation k_module = Some (True, [])"
    by code_simp+
  then show ?thesis using collect_k k_op_in by simp
qed

text \<open>
  Claim C2, amended: for every operation of the module whose kind is unregistered or
  outside the intersection set, and is not the metadata kind or one of the six kinds of
  replicated and partitioned inputs and outputs, if the operation must be compiled and
  must not be compiled then the pass fails and has reported the conflict on that
  operation.
\<close>

theorem type_conflict_fails_stage:
  assumes "collect_metadata (walk g) Map.empty = Some mm"
    and "op \<in> set (walk g)"
    and "registered (data op) \<notin> Some ` set intersection_ops"
    and "registered (data op) \<notin> Some ` set (TPUReplicateMetadataOp # replicated_io_ops)"
    and "IsMustBeXlaOp op mm" and "IsMustNotBeXlaOp op"
  shows "\<exists>ds. runOnOperation g = Some (False, ds) \<and> OpError (oid op) BothXlaAndNonXla \<in> set ds"
proof -
  have classified: "IsIntersectionXlaNonXlaOps op"
    using assms(3) by (simp add: IsIntersectionXlaNonXlaOps_iff)
  have "ValidateIntersectionXlaNonXlaOps op mm = (False, [OpError (oid op) BothXlaAndNonXla])"
    using assms(4-6)
    by (simp add: ValidateIntersectionXlaNonXlaOps_def isa_def replicated_io_ops_def image_iff)
  with classified have "\<not> fst (check_op g mm (True, []) op)"
    and "OpError (oid op) BothXlaAndNonXla \<in> set (snd (check_op g mm (True, []) op))"
    by (simp_all add: fst_check_op snd_check_op)
  with assms(1,2) show ?thesis
    by (rule node_failure_fails_stage)
qed

theorem type_conflict_fails_stage_witness:
  "collect_metadata (walk d_module) Map.empty = Some cluster_c1
   \<and> d_op \<in> set (walk d_module)
   \<and> registered (data d_op) \<notin> Some ` set intersection_ops
   \<and> registered (data d_op) \<notin> Some ` set (TPUReplicateMetadataOp # replicated_io_ops)
   \<and> IsMustBeXlaOp d_op cluster_c1 \<and> IsMustNotBeXlaOp d_op
   \<and> runOnOperation d_module = Some (False, [OpError 31 BothXlaAndNonXla])"
proof -
  have h3: "registered (data d_op) \<notin> Some ` set intersection_ops"
    and h4: "registered (data d_op) \<notin> Some ` set (TPUReplicateMetadataOp # replicated_io_ops)"
    by (simp_all add: d_op_def plain_op_def mk_data_def intersection_ops_def replicated_io_ops_def)
  have h5: "IsMustBeXlaOp d_op cluster_c1" and h6: "IsMustNotBeXlaOp d_op"
    by code_simp+
  have run: "runOnOperation d_module = Some (False, [OpError 31 BothXlaAndNonXla])"
    by code_simp
  from type_conflict_fails_stage [OF collect_d d_op_in h3 h4 h5 h6] collect_d d_op_in h3 h4 h5 h6 run
  show ?thesis by simp
qed

subsection \<open>C3: the metadata used by a delegated check\<close>

text \<open>
  Claim C3, as stated, says that a delegated check of a replicated or partitioned input or
  output uses the metadata of the cluster named by the attribute of that input or output.
  In the module below the replicated input carries the identifier \<open>c2\<close>, whose cluster has
  one replica, and has one operand; the check delegated by its successor \<open>a_op\<close> of the
  cluster \<open>c1\<close> reports the arity against the two replicas of \<open>c1\<close>.
\<close>

theorem neighbour_own_cluster_not_used:
  "well_formed_module m_module
   \<and> getAttr m_rep kTpuReplicateAttr = Some ''c2''
   \<and> getAttr a_op kTpuReplicateAttr = Some ''c1''
   \<and> map oid (GetPredecessors m_module a_op) = [21, 22, 20]
   \<and> num_replicas (data c2_meta) = 1 \<and> num_replicas (data c1_meta) = 2
   \<and> length (operands (data m_rep)) = 1
   \<and> CheckOpsClusterIO m_module two_clusters a_op =
        (False, [OpError 21 (InputsInconsistent NumReplicas 2 1)])
   \<and> runOnOperation m_module =
        Some (False, [OpError 21 (InputsInconsistent NumReplicas 2 1)])"
  by code_simp

text \<open>
  Claim C3, amended: when \<open>CheckOpsClusterIO\<close> runs on an operation \<open>op\<close> that carries a
  non-empty cluster identifier \<open>c\<close> with a metadata entry \<open>md\<close>, every check it delegates
  to \<open>CheckReplicatedIOOp\<close>, for a predecessor or a successor that is not plain, is
  evaluated with \<open>md\<close>, the metadata of the cluster of the delegating operation \<open>op\<close>.
  The delegated check of a neighbour \<open>p\<close> reads \<open>md\<close> as follows.
  \<^item> It passes exactly when the operand count of a replicated input is 1 if it is packed and
    the number of replicas of \<open>md\<close> otherwise, the result count of a replicated output is
    the number of replicas of \<open>md\<close>, the operand count of a partitioned input is the
    number of cores per replica of \<open>md\<close> (1 for a packed partitioned input of the second
    version), the result count of a partitioned output is the number of cores per replica
    of \<open>md\<close>, and every plain successor of a replicated input and every plain predecessor
    of a replicated output carries the cluster identifier of \<open>md\<close>.
  \<^item> Every violation of an arity rule is reported on \<open>p\<close>, alone, with the number taken
    from \<open>md\<close>.
  \<^item> A neighbour that is not plain and fails its delegated check makes the check of \<open>op\<close>
    fail.
  \<^item> The cluster identifier attribute of \<open>p\<close> itself is not read: the delegated check gives
    the same result whatever that attribute is, or without it. The kind of \<open>p\<close>, its
    packing flag and its operands and results are read.
\<close>

theorem delegation_uses_delegating_cluster:
  assumes "getAttr op kTpuReplicateAttr = Some c" and "c \<noteq> []" and "mm c = Some md"
  shows "CheckOpsClusterIO g mm op =
           and_then
             (for_each (\<lambda>p. run_if (\<not> IsTpuRegularOp p) (CheckReplicatedIOOp g p md op))
                (GetPredecessors g op))
             (for_each (\<lambda>s. if IsTpuRegularOp s then CheckClusterSuccessors s c op mm
                             else CheckReplicatedIOOp g s md op)
                (GetSuccessors g op))
         \<and> (fst (CheckReplicatedIOOp g p md op) =
             ((isa TPUReplicatedInputOp p \<longrightarrow>
                 (if is_packed (data p) then input_arity p = 1
                  else input_arity p = replicas_of md)
                 \<and> (\<forall>s\<in>set (GetSuccessors g p). IsTpuRegularOp s \<longrightarrow>
                       getAttr s kTpuReplicateAttr \<noteq> None
                       \<and> getAttr s kTpuReplicateAttr = getAttr md kTpuReplicateAttr))
              \<and> (isa TPUReplicatedOutputOp p \<longrightarrow>
                   output_arity p = replicas_of md
                   \<and> (\<forall>q\<in>set (GetPredecessors g p). IsTpuRegularOp q \<longrightarrow>
                         getAttr q kTpuReplicateAttr \<noteq> None
                         \<and> getAttr q kTpuReplicateAttr = getAttr md kTpuReplicateAttr))
              \<and> (isa TPUPartitionedInputOp p \<longrightarrow> input_arity p = cores_of md)
              \<and> (isa TPUPartitionedInputV2Op p \<longrightarrow>
                   (if is_packed (data p) then input_arity p = 1
                    else input_arity p = cores_of md))
              \<and> (isa TPUPartitionedOutputOp p \<or> isa TPUPartitionedOutputV2Op p \<longrightarrow>
                   output_arity p = cores_of md)))
         \<and> (isa TPUReplicatedInputOp p \<and> is_packed (data p) \<and> input_arity p \<noteq> 1 \<longrightarrow>
             CheckReplicatedIOOp g p md op =
               (False, [OpError (oid p)
                  (PackedInputsNot1 NumReplicas (replicas_of md) (input_arity p))]))
         \<and> (isa TPUReplicatedInputOp p \<and> \<not> is_packed (data p)
              \<and> input_arity p \<noteq> replicas_of md \<longrightarrow>
             CheckReplicatedIOOp g p md op =
               (False, [OpError (oid p)
                  (InputsInconsistent NumReplicas (replicas_of md) (input_arity p))]))
         \<and> (isa TPUReplicatedOutputOp p \<and> output_arity p \<noteq> replicas_of md \<longrightarrow>
             CheckReplicatedIOOp g p md op =
               (False, [OpError (oid p)
                  (OutputsInconsistent NumReplicas (replicas_of md) (output_arity p))]))
         \<and> (isa TPUPartitionedInputOp p \<and> input_arity p \<noteq> cores_of md \<longrightarrow>
             CheckReplicatedIOOp g p md op =
               (False, [OpError (oid p)
                  (InputsInconsistent NumCoresPerReplica (cores_of md) (input_arity p))]))
         \<and> (isa TPUPartitionedInputV2Op p \<and> is_packed (data p) \<and> input_arity p \<noteq> 1 \<longrightarrow>
             CheckReplicatedIOOp g p md op =
               (False, [OpError (oid p)
                  (PackedInputsNot1 NumCoresPerReplica (cores_of md) (input_arity p))]))
         \<and> (isa TPUPartitionedInputV2Op p \<and> \<not> is_packed (data p)
              \<and> input_arity p \<noteq> cores_of md \<longrightarrow>
             CheckReplicatedIOOp g p md op =
               (False, [OpError (oid p)
                  (InputsInconsistent NumCoresPerReplica (cores_of md) (input_arity p))]))
         \<and> ((isa TPUPartitionedOutputOp p \<or> isa TPUPartitionedOutputV2Op p)
              \<and> output_arity p \<noteq> cores_of md \<longrightarrow>
             CheckReplicatedIOOp g p md op =
               (False, [OpError (oid p)
                  (OutputsInconsistent NumCoresPerReplica (cores_of md) (output_arity p))]))
         \<and> (p \<in> set (GetPredecessors g op) \<union> set (GetSuccessors g op)
              \<and> \<not> IsTpuRegularOp p \<and> \<not> fst (CheckReplicatedIOOp g p md op) \<longrightarrow>
             \<not> fst (CheckOpsClusterIO g mm op))
         \<and> CheckReplicatedIOOp g (set_cluster_attr v p) md op = CheckReplicatedIOOp g p md op"
proof -
  from delegated_failure_fails [where mm = mm, OF assms]
  have "p \<in> set (GetPredecessors g op) \<union> set (GetSuccessors g op)
          \<and> \<not> IsTpuRegularOp p \<and> \<not> fst (CheckReplicatedIOOp g p md op) \<longrightarrow>
        \<not> fst (CheckOpsClusterIO g mm op)"
    by blast
  with CheckOpsClusterIO_cluster_md [where mm = mm, OF assms]
    fst_CheckReplicatedIOOp [of g p md op]
    CheckReplicatedIOOp_arity_diagnostics [where p = p and g = g and md = md and parent = op]
    CheckReplicatedIOOp_set_cluster_attr [of g v p md op]
  show ?thesis
    by (intro conjI)
qed

text \<open>
  The theorem on two modules. In the first, the replicated input \<open>m_rep\<close> carries the
  identifier \<open>c2\<close>, whose cluster has one replica, and has one operand; its successor
  \<open>a_op\<close> is of the cluster \<open>c1\<close>, of two replicas: the delegated check reports the
  arity against the two replicas, also when the identifier of \<open>m_rep\<close> is replaced by
  \<open>c1\<close>, and the check of \<open>a_op\<close> fails. In the second, the replicated inputs \<open>a_rep\<close>
  and \<open>packed_rep\<close> differ by the packing flag only, which is read.
\<close>

theorem delegation_uses_delegating_cluster_witness:
  "getAttr a_op kTpuReplicateAttr = Some ''c1'' \<and> ''c1'' \<noteq> []
   \<and> two_clusters ''c1'' = Some c1_meta \<and> two_clusters ''c2'' = Some c2_meta
   \<and> map oid (GetPredecessors m_module a_op) = [21, 22, 20]
   \<and> m_rep \<in> set (GetPredecessors m_module a_op)
   \<and> isa TPUReplicatedInputOp m_rep \<and> \<not> IsTpuRegularOp m_rep \<and> \<not> is_packed (data m_rep)
   \<and> getAttr m_rep kTpuReplicateAttr = Some ''c2''
   \<and> input_arity m_rep = 1 \<and> replicas_of c2_meta = 1 \<and> replicas_of c1_meta = 2
   \<and> CheckReplicatedIOOp m_module m_rep c1_meta a_op =
        (False, [OpError 21 (InputsInconsistent NumReplicas 2 1)])
   \<and> \<not> fst (CheckOpsClusterIO m_module two_clusters a_op)
   \<and> getAttr (set_cluster_attr (Some ''c1'') m_rep) kTpuReplicateAttr = Some ''c1''
   \<and> CheckReplicatedIOOp m_module (set_cluster_attr (Some ''c1'') m_rep) c1_meta a_op =
        (False, [OpError 21 (InputsInconsistent NumReplicas 2 1)])
   \<and> cluster_c1 ''c1'' = Some c1_meta
   \<and> isa TPUReplicatedInputOp packed_rep \<and> is_packed (data packed_rep)
   \<and> input_arity packed_rep = 2 \<and> input_arity a_rep = 2
   \<and> CheckReplicatedIOOp a_module a_rep c1_meta a_op = (True, [])
   \<and> CheckReplicatedIOOp a_module packed_rep c1_meta a_op =
        (False, [OpError 21 (PackedInputsNot1 NumReplicas 2 2)])"
proof -
  have h1: "getAttr a_op kTpuReplicateAttr = Some ''c1''" by code_simp
  have h2: "''c1'' \<noteq> []" by simp
  have h3: "two_clusters ''c1'' = Some c1_meta" "two_clusters ''c2'' = Some c2_meta"
    "cluster_c1 ''c1'' = Some c1_meta"
    by (simp_all add: two_clusters_def cluster_c1_def)
  have e: "map oid (GetPredecessors m_module a_op) = [21, 22, 20]"
    "isa TPUReplicatedInputOp m_rep" "\<not> IsTpuRegularOp m_rep" "\<not> is_packed (data m_rep)"
    "getAttr m_rep kTpuReplicateAttr = Some ''c2''" "oid m_rep = 21"
    "getAttr (set_cluster_attr (Some ''c1'') m_rep) kTpuReplicateAttr = Some ''c1''"
    "isa TPUReplicatedInputOp packed_rep" "is_packed (data packed_rep)" "oid packed_rep = 21"
    "CheckReplicatedIOOp a_module a_rep c1_meta a_op = (True, [])"
    by code_simp+
  have n: "input_arity m_rep = 1" "replicas_of c2_meta = 1" "replicas_of c1_meta = 2"
    "input_arity packed_rep = 2" "input_arity a_rep = 2"
    by (simp_all add: m_rep_def a_rep_def operand_counts example_ops)
  note t = delegation_uses_delegating_cluster [where g = m_module and mm = two_clusters
      and p = m_rep and v = "Some ''c1''", OF h1 h2 h3(1), THEN conjunct2, THEN conjunct2]
  note u = delegation_uses_delegating_cluster [where g = a_module and mm = cluster_c1
      and p = packed_rep and v = None, OF h1 h2 h3(3), THEN conjunct2, THEN conjunct2]
  from t [THEN conjunct2, THEN conjunct1] e n
  have r: "CheckReplicatedIOOp m_module m_rep c1_meta a_op =
        (False, [OpError 21 (InputsInconsistent NumReplicas 2 1)])"
    by simp
  from t [THEN conjunct2, THEN conjunct2, THEN conjunct2, THEN conjunct2, THEN conjunct2,
      THEN conjunct2, THEN conjunct2, THEN conjunct1] m_rep_pred e r
  have f: "\<not> fst (CheckOpsClusterIO m_module two_clusters a_op)"
    by simp
  from t [THEN conjunct2, THEN conjunct2, THEN conjunct2, THEN conjunct2, THEN conjunct2,
      THEN conjunct2, THEN conjunct2, THEN conjunct2] r
  have s: "CheckReplicatedIOOp m_module (set_cluster_attr (Some ''c1'') m_rep) c1_meta a_op =
        (False, [OpError 21 (InputsInconsistent NumReplicas 2 1)])"
    by simp
  from u [THEN conjunct1] e n
  have k: "CheckReplicatedIOOp a_module packed_rep c1_meta a_op =
        (False, [OpError 21 (PackedInputsNot1 NumReplicas 2 2)])"
    by simp
  from h1 h2 h3 e m_rep_pred n r f s k show ?thesis
    by simp
qed

subsection \<open>C4: which violations one run reports\<close>




subsection \<open>C5: the arity of a replicated input\<close>

text \<open>
  Claim C5, as stated, says that \<open>ValidateReplicatedInput\<close> passes if and only if the
  operand count is right. After the arity, the function checks that every plain successor
  carries the cluster attribute. In the module below the replicated input has two
  operands and is validated against the two replicas of \<open>c1\<close>, on behalf of its
  successor of that cluster; it fails on its other plain successor, which carries no
  cluster identifier.
\<close>

theorem right_arity_still_fails:
  "well_formed_module r_module
   \<and> \<not> is_packed (data r_rep) \<and> length (operands (data r_rep)) = 2
   \<and> int (length (operands (data r_rep))) = sint (2 :: int32)
   \<and> num_replicas (data c1_meta) = 2
   \<and> map oid (GetSuccessors r_module r_rep) = [31, 41]
   \<and> ValidateReplicatedInput r_module r_rep 2 (Some ''c1'') =
        (False, [OpError 41 (MissingTpuReplicateAttr Successor 21)])
   \<and> CheckOpsClusterIO r_module cluster_c1 r_op1 =
        (False, [OpError 41 (MissingTpuReplicateAttr Successor 21)])"
proof -
  have "well_formed_module r_module" "\<not> is_packed (data r_rep)"
    "num_replicas (data c1_meta) = 2"
    "map oid (GetSuccessors r_module r_rep) = [31, 41]"
    "ValidateReplicatedInput r_module r_rep 2 (Some ''c1'') =
        (False, [OpError 41 (MissingTpuReplicateAttr Successor 21)])"
    "CheckOpsClusterIO r_module cluster_c1 r_op1 =
        (False, [OpError 41 (MissingTpuReplicateAttr Successor 21)])"
    by code_simp+
  then show ?thesis
    by (simp add: r_rep_def operand_counts)
qed

text \<open>
  Claim C5, amended: for every replicated input (with fewer than \<open>2 ^ 31\<close> operands, so
  that the count fits the \<^verbatim>\<open>int\<close> it is stored in) validated against \<open>N\<close> replicas,
  the check passes if and only if the operand count is 1 when the packing flag is set and
  \<open>N\<close> when it is unset, and moreover every plain successor carries the cluster attribute
  of the metadata; every violation of the arity produces the arity diagnostic, alone, and
  the result false.
\<close>

theorem ValidateReplicatedInput_rule:
  assumes "length (operands (data rep)) < 2 ^ 31"
  shows "(fst (ValidateReplicatedInput g rep N attr) =
           ((if is_packed (data rep) then length (operands (data rep)) = 1
             else int (length (operands (data rep))) = sint N)
            \<and> (\<forall>succ\<in>set (GetSuccessors g rep). IsTpuRegularOp succ \<longrightarrow>
                  getAttr succ kTpuReplicateAttr \<noteq> None \<and> getAttr succ kTpuReplicateAttr = attr)))
       \<and> (is_packed (data rep) \<and> length (operands (data rep)) \<noteq> 1 \<longrightarrow>
           ValidateReplicatedInput g rep N attr =
             (False, [OpError (oid rep)
                (PackedInputsNot1 NumReplicas N (of_nat (length (operands (data rep)))))]))
       \<and> (\<not> is_packed (data rep) \<and> int (length (operands (data rep))) \<noteq> sint N \<longrightarrow>
           ValidateReplicatedInput g rep N attr =
             (False, [OpError (oid rep)
                (InputsInconsistent NumReplicas N (of_nat (length (operands (data rep)))))]))"
  using assms
  by (auto simp: ValidateReplicatedInput_def Let_def arity_eq_iff arity_eq_1_iff fst_for_each
      fst_CheckTpuReplicateAttr)

theorem ValidateReplicatedInput_rule_witness:
  "length (operands (data a_rep)) < 2 ^ 31 \<and> \<not> is_packed (data a_rep)
   \<and> int (length (operands (data a_rep))) = sint (2 :: int32)
   \<and> fst (ValidateReplicatedInput a_module a_rep 2 (Some ''c1''))
   \<and> is_packed (data packed_rep) \<and> length (operands (data packed_rep)) = 2
   \<and> ValidateReplicatedInput a_module packed_rep 7 (Some ''c1'') =
        (False, [OpError 21 (PackedInputsNot1 NumReplicas 7 2)])
   \<and> ValidateReplicatedInput a_module a_rep 3 (Some ''c1'') =
        (False, [OpError 21 (InputsInconsistent NumReplicas 3 2)])"
proof -
  have n: "length (operands (data a_rep)) = 2" "length (operands (data packed_rep)) = 2"
    by (simp_all add: a_rep_def operand_counts)
  then have b: "length (operands (data a_rep)) < 2 ^ 31"
    "length (operands (data packed_rep)) < 2 ^ 31"
    by simp_all
  have a: "\<not> is_packed (data a_rep)" "is_packed (data packed_rep)"
    "oid packed_rep = 21" "oid a_rep = 21"
    "list_all (\<lambda>succ. IsTpuRegularOp succ \<longrightarrow>
       getAttr succ kTpuReplicateAttr \<noteq> None \<and> getAttr succ kTpuReplicateAttr = Some ''c1'')
       (GetSuccessors a_module a_rep)"
    by code_simp+
  from ValidateReplicatedInput_rule [OF b(1), where g = a_module and N = 2 and attr = "Some ''c1''"]
    ValidateReplicatedInput_rule [OF b(1), where g = a_module and N = 3 and attr = "Some ''c1''"]
    ValidateReplicatedInput_rule [OF b(2), where g = a_module and N = 7 and attr = "Some ''c1''"]
    a n b
  show ?thesis by (simp add: list_all_iff)
qed

subsection \<open>C6: the plain successors of a cluster node\<close>

text \<open>
  Claim C6: for a successor checked by \<open>CheckClusterSuccessors\<close> on behalf of a node with
  cluster identifier \<open>c\<close>: if the successor carries a different non-empty identifier, the
  check returns false with an error; if it carries no identifier at all, the check emits
  a warning only and returns true, so it contributes no failure to the verdict.
\<close>

theorem CheckClusterSuccessors_rule:
  "(getAttr succ kTpuReplicateAttr = Some c' \<and> c' \<noteq> [] \<and> c' \<noteq> c \<longrightarrow>
      CheckClusterSuccessors succ c parent mm =
        (False, [OpError (oid succ) (MismatchClusters (oid parent) c c')]))
   \<and> (getAttr succ kTpuReplicateAttr = None \<longrightarrow>
        CheckClusterSuccessors succ c parent mm =
          (True, [Warning (oid succ) (NonClusterSuccessor (oid parent) c)]))"
  by (auto simp: CheckClusterSuccessors_def Let_def)

theorem CheckClusterSuccessors_rule_witness:
  "getAttr e_op2 kTpuReplicateAttr = None
   \<and> CheckClusterSuccessors e_op2 ''c1'' e_op1 cluster_c1 =
       (True, [Warning 41 (NonClusterSuccessor 31 ''c1'')])
   \<and> runOnOperation e_module = Some (True, [Warning 41 (NonClusterSuccessor 31 ''c1'')])
   \<and> getAttr a_op kTpuReplicateAttr = Some ''c1''
   \<and> CheckClusterSuccessors a_op ''c2'' e_op1 cluster_c1 =
       (False, [OpError 31 (MismatchClusters 31 ''c2'' ''c1'')])"
proof -
  have h: "getAttr e_op2 kTpuReplicateAttr = None" "getAttr a_op kTpuReplicateAttr = Some ''c1''"
    "oid e_op2 = 41" "oid e_op1 = 31" "oid a_op = 31"
    "runOnOperation e_module = Some (True, [Warning 41 (NonClusterSuccessor 31 ''c1'')])"
    by code_simp+
  from CheckClusterSuccessors_rule [where succ = e_op2 and c = "''c1''" and parent = e_op1
      and mm = cluster_c1]
    CheckClusterSuccessors_rule [where succ = a_op and c = "''c2''" and c' = "''c1''"
      and parent = e_op1 and mm = cluster_c1] h
  show ?thesis by simp
qed

subsection \<open>C7: the neighbours of a node outside every cluster\<close>

text \<open>
  Claim C7: for a node that carries no cluster identifier, \<open>CheckOpsClusterIO\<close> passes
  exactly when no predecessor is a replicated input and no successor is a replicated
  output; when it fails it has emitted an error, and each of its diagnostics is the error
  on a replicated-input predecessor or on a replicated-output successor, so partitioned
  inputs and outputs (both versions) never cause an error under this rule. On a plain
  node of the module such a failure makes the pass fail.
\<close>

theorem non_cluster_adjacency_rule:
  assumes "\<not> hasAttr op kTpuReplicateAttr"
  shows "fst (CheckOpsClusterIO g mm op) =
           ((\<forall>p\<in>set (GetPredecessors g op). \<not> isa TPUReplicatedInputOp p)
            \<and> (\<forall>s\<in>set (GetSuccessors g op). \<not> isa TPUReplicatedOutputOp s))
         \<and> (\<not> fst (CheckOpsClusterIO g mm op) \<longrightarrow> snd (CheckOpsClusterIO g mm op) \<noteq> [])
         \<and> (\<forall>d\<in>set (snd (CheckOpsClusterIO g mm op)).
              (\<exists>p\<in>set (GetPredecessors g op). isa TPUReplicatedInputOp p
                  \<and> d = OpError (oid p) (InvalidPredecessor (oid op)))
              \<or> (\<exists>s\<in>set (GetSuccessors g op). isa TPUReplicatedOutputOp s
                  \<and> d = OpError (oid s) (InvalidSuccessor (oid op))))
         \<and> (collect_metadata (walk g) Map.empty = Some mm \<and> op \<in> set (walk g)
              \<and> IsTpuRegularOp op \<and> \<not> fst (CheckOpsClusterIO g mm op) \<longrightarrow>
              (\<exists>ds. runOnOperation g = Some (False, ds)))"
proof (intro conjI)
  note eq = CheckOpsClusterIO_non_cluster [OF assms, of g mm]
  show "fst (CheckOpsClusterIO g mm op) =
           ((\<forall>p\<in>set (GetPredecessors g op). \<not> isa TPUReplicatedInputOp p)
            \<and> (\<forall>s\<in>set (GetSuccessors g op). \<not> isa TPUReplicatedOutputOp s))"
    by (simp add: eq fst_and_then fst_for_each fst_CheckNonClusterPredecessors
        fst_CheckNonClusterSuccessors)
  show "\<not> fst (CheckOpsClusterIO g mm op) \<longrightarrow> snd (CheckOpsClusterIO g mm op) \<noteq> []"
  proof
    assume "\<not> fst (CheckOpsClusterIO g mm op)"
    then consider
        "\<not> fst (for_each (\<lambda>p. CheckNonClusterPredecessors p op mm) (GetPredecessors g op))"
      | "fst (for_each (\<lambda>p. CheckNonClusterPredecessors p op mm) (GetPredecessors g op))"
        "\<not> fst (for_each (\<lambda>s. CheckNonClusterSuccessors s op mm) (GetSuccessors g op))"
      by (auto simp: eq fst_and_then)
    then show "snd (CheckOpsClusterIO g mm op) \<noteq> []"
    proof cases
      case 1
      from for_each_failure_reported [OF 1] obtain p where
        "\<not> fst (CheckNonClusterPredecessors p op mm)"
        "set (snd (CheckNonClusterPredecessors p op mm))
           \<subseteq> set (snd (for_each (\<lambda>p. CheckNonClusterPredecessors p op mm) (GetPredecessors g op)))"
        by blast
      then show ?thesis
        using 1 by (auto simp: eq snd_and_then CheckNonClusterPredecessors_def split: if_splits)
    next
      case 2
      from for_each_failure_reported [OF 2(2)] obtain s where
        "\<not> fst (CheckNonClusterSuccessors s op mm)"
        "set (snd (CheckNonClusterSuccessors s op mm))
           \<subseteq> set (snd (for_each (\<lambda>s. CheckNonClusterSuccessors s op mm) (GetSuccessors g op)))"
        by blast
      then show ?thesis
        using 2 by (auto simp: eq snd_and_then CheckNonClusterSuccessors_def split: if_splits)
    qed
  qed
  show "\<forall>d\<in>set (snd (CheckOpsClusterIO g mm op)).
              (\<exists>p\<in>set (GetPredecessors g op). isa TPUReplicatedInputOp p
                  \<and> d = OpError (oid p) (InvalidPredecessor (oid op)))
              \<or> (\<exists>s\<in>set (GetSuccessors g op). isa TPUReplicatedOutputOp s
                  \<and> d = OpError (oid s) (InvalidSuccessor (oid op)))"
    unfolding eq
    by (blast dest: snd_and_then_mem snd_for_each_mem boundary_diags)
  show "collect_metadata (walk g) Map.empty = Some mm \<and> op \<in> set (walk g)
              \<and> IsTpuRegularOp op \<and> \<not> fst (CheckOpsClusterIO g mm op) \<longrightarrow>
              (\<exists>ds. runOnOperation g = Some (False, ds))"
    by (auto simp: runOnOperation_result list_all_iff fst_check_op)
qed

theorem non_cluster_adjacency_rule_witness:
  "\<not> hasAttr n_op kTpuReplicateAttr
   \<and> map (registered \<circ> data) (GetPredecessors n_module n_op) =
       [Some TPUReplicatedInputOp, Some YieldOp, Some IslandOp,
        Some TPUReplicatedInputOp, Some YieldOp, Some IslandOp]
   \<and> CheckOpsClusterIO n_module cluster_c1 n_op = (False, [OpError 21 (InvalidPredecessor 31)])
   \<and> \<not> hasAttr p_op kTpuReplicateAttr
   \<and> map (registered \<circ> data) (GetPredecessors p_module p_op) =
       [Some TPUPartitionedInputOp, Some YieldOp, Some IslandOp]
   \<and> CheckOpsClusterIO p_module cluster_c1 p_op = (True, [])"
proof -
  have n: "\<not> hasAttr n_op kTpuReplicateAttr" and p: "\<not> hasAttr p_op kTpuReplicateAttr"
    by code_simp+
  have e: "map (registered \<circ> data) (GetPredecessors n_module n_op) =
       [Some TPUReplicatedInputOp, Some YieldOp, Some IslandOp,
        Some TPUReplicatedInputOp, Some YieldOp, Some IslandOp]"
    "CheckOpsClusterIO n_module cluster_c1 n_op = (False, [OpError 21 (InvalidPredecessor 31)])"
    "map (registered \<circ> data) (GetPredecessors p_module p_op) =
       [Some TPUPartitionedInputOp, Some YieldOp, Some IslandOp]"
    "CheckOpsClusterIO p_module cluster_c1 p_op = (True, [])"
    by code_simp+
  from non_cluster_adjacency_rule [OF n, of n_module cluster_c1]
    non_cluster_adjacency_rule [OF p, of p_module cluster_c1] n p e
  show ?thesis by simp
qed

subsection \<open>C8: an empty cluster identifier\<close>

text \<open>
  Claim C8, as stated, is about every node with an empty cluster identifier. The driver
  runs \<open>CheckOpsClusterIO\<close>, which holds the check, on the plain operations only: a
  metadata operation with an empty identifier passes in silence.
\<close>

theorem empty_identifier_on_metadata_passes:
  "well_formed_module z_module
   \<and> getAttr z_meta kTpuReplicateAttr = Some []
   \<and> z_meta \<in> set (walk z_module)
   \<and> runOnOperation z_module = Some (True, [])"
proof -
  have "well_formed_module z_module"
    "getAttr z_meta kTpuReplicateAttr = Some []" "runOnOperation z_module = Some (True, [])"
    by code_simp+
  then show ?thesis using z_meta_in by simp
qed

text \<open>
  Claim C8, amended: for every plain operation of the module (kind unregistered or outside
  the structural set) that carries a cluster identifier whose value is the empty string,
  the pass emits the error for that operation and fails.
\<close>

theorem empty_identifier_fails_stage:
  assumes "collect_metadata (walk g) Map.empty = Some mm"
    and "op \<in> set (walk g)"
    and "IsTpuRegularOp op"
    and "getAttr op kTpuReplicateAttr = Some []"
  shows "\<exists>ds. runOnOperation g = Some (False, ds) \<and> OpError (oid op) EmptyTpuReplicate \<in> set ds"
proof -
  from assms(3,4) have "\<not> fst (check_op g mm (True, []) op)"
    and "OpError (oid op) EmptyTpuReplicate \<in> set (snd (check_op g mm (True, []) op))"
    by (simp_all add: fst_check_op snd_check_op CheckOpsClusterIO_empty)
  with assms(1,2) show ?thesis
    by (rule node_failure_fails_stage)
qed

theorem empty_identifier_fails_stage_witness:
  "collect_metadata (walk y_module) Map.empty = Some Map.empty
   \<and> y_op \<in> set (walk y_module) \<and> IsTpuRegularOp y_op
   \<and> getAttr y_op kTpuReplicateAttr = Some []
   \<and> runOnOperation y_module = Some (False, [OpError 31 EmptyTpuReplicate])"
proof -
  have h3: "IsTpuRegularOp y_op" and h4: "getAttr y_op kTpuReplicateAttr = Some []"
    and run: "runOnOperation y_module = Some (False, [OpError 31 EmptyTpuReplicate])"
    by code_simp+
  from empty_identifier_fails_stage [OF collect_y y_op_in h3 h4] collect_y y_op_in h3 h4 run
  show ?thesis by simp
qed

subsection \<open>C9: two runs on the same module\<close>

text \<open>
  Claim C9: the two classification sets are the only variables of the pass that outlive a
  run. From every state a process can be in (each set built or not yet built), a run of
  the pass with the sets threaded as state returns the verdict and the diagnostics that
  the function \<open>runOnOperation\<close> of the module gives; a second run on the same module,
  from the state the first run has left, returns the same verdict and the same sequence
  of diagnostics; and a set that was built is never changed.
\<close>

theorem two_runs_agree:
  assumes "valid_statics s"
  shows "fst (runOnOperation_in g s) = runOnOperation g
         \<and> fst (runOnOperation_in g (snd (runOnOperation_in g s))) = fst (runOnOperation_in g s)
         \<and> valid_statics (snd (runOnOperation_in g s))
         \<and> keeps s (snd (runOnOperation_in g s))"
  using agrees_runOnOperation [of g] assms by (simp add: agrees_def)

theorem two_runs_agree_witness:
  "valid_statics fresh_process
   \<and> runOnOperation_in w_module fresh_process =
       (Some (False, [OpError 31 EmptyTpuReplicate, OpError 41 BothXlaAndNonXla]),
        \<lparr>regular_static = Some tpu_regular_ops, intersection_static = Some intersection_ops\<rparr>)
   \<and> fst (runOnOperation_in w_module (snd (runOnOperation_in w_module fresh_process))) =
       Some (False, [OpError 31 EmptyTpuReplicate, OpError 41 BothXlaAndNonXla])"
proof -
  have v: "valid_statics fresh_process"
    by (simp add: valid_statics_def fresh_process_def)
  have "runOnOperation_in w_module fresh_process =
       (Some (False, [OpError 31 EmptyTpuReplicate, OpError 41 BothXlaAndNonXla]),
        \<lparr>regular_static = Some tpu_regular_ops, intersection_static = Some intersection_ops\<rparr>)"
    by code_simp
  with two_runs_agree [OF v, of w_module] v show ?thesis
    by simp
qed

subsection \<open>C10: the arity rules are enforced by delegation only\<close>

text \<open>
  Claim C10: the step of the checking walk on a node of the six replicated and
  partitioned kinds leaves the verdict and the diagnostics as they are, so the arity
  rules are never run on such a node directly; and when no plain operation that has the
  node \<open>i\<close> among its neighbours carries a cluster identifier with a metadata entry, the
  run reports no arity diagnostic on \<open>i\<close>, whatever its operand count. An instance is
  the module \<open>p_module\<close>: a partitioned input of one operand, two cores per replica in
  the only cluster, and a success verdict.
\<close>

theorem arity_rules_only_by_delegation:
  assumes "collect_metadata (walk g) Map.empty = Some mm"
    and "\<forall>op\<in>set (walk g).
           IsTpuRegularOp op
           \<and> i \<in> oid ` (set (GetPredecessors g op) \<union> set (GetSuccessors g op)) \<longrightarrow>
           (\<forall>c. getAttr op kTpuReplicateAttr = Some c \<longrightarrow> mm c = None)"
  shows "(registered (data p) \<in> Some ` set replicated_io_ops \<longrightarrow> check_op g mm st p = st)
         \<and> (\<exists>v ds. runOnOperation g = Some (v, ds)
                \<and> (\<forall>m. OpError i m \<in> set ds \<longrightarrow> \<not> is_arity_message m))"
proof (intro conjI impI)
  assume kind: "registered (data p) \<in> Some ` set replicated_io_ops"
  then have "\<not> IsTpuRegularOp p"
    by (auto simp: IsTpuRegularOp_iff replicated_io_ops_def tpu_regular_ops_def)
  moreover from kind have "ValidateIntersectionXlaNonXlaOps p mm = (True, [])"
    by (auto simp: ValidateIntersectionXlaNonXlaOps_def isa_def replicated_io_ops_def)
  ultimately show "check_op g mm st p = st"
    by (simp add: check_op_def accumulate_def)
next
  let ?ds = "concat (map (\<lambda>op. snd (check_op g mm (True, []) op)) (walk g))"
  have "\<not> is_arity_message m" if "OpError i m \<in> set ?ds" for m
  proof
    assume arity: "is_arity_message m"
    from that obtain op where op: "op \<in> set (walk g)"
      and d: "OpError i m \<in> set (snd (check_op g mm (True, []) op))"
      by auto
    from arity have "m \<noteq> BothXlaAndNonXla"
      by (auto simp: is_arity_message_def)
    with d have reg: "IsTpuRegularOp op"
      and d': "OpError i m \<in> set (snd (CheckOpsClusterIO g mm op))"
      by (auto simp: snd_check_op ValidateIntersection_diags split: if_splits)
    from CheckOpsClusterIO_diags [OF d'] arity obtain c md where
      "getAttr op kTpuReplicateAttr = Some c" "mm c = Some md"
      "i \<in> oid ` (set (GetPredecessors g op) \<union> set (GetSuccessors g op))"
      by blast
    with assms(2) op reg show False
      by fastforce
  qed
  then show "\<exists>v ds. runOnOperation g = Some (v, ds)
                \<and> (\<forall>m. OpError i m \<in> set ds \<longrightarrow> \<not> is_arity_message m)"
    using runOnOperation_result [OF assms(1)] by blast
qed

theorem arity_rules_only_by_delegation_witness:
  "well_formed_module p_module
   \<and> collect_metadata (walk p_module) Map.empty = Some cluster_c1
   \<and> list_all (\<lambda>op. IsTpuRegularOp op \<longrightarrow> getAttr op kTpuReplicateAttr = None) (walk p_module)
   \<and> registered (data p_in) = Some TPUPartitionedInputOp \<and> oid p_in = 21
   \<and> map oid (GetSuccessors p_module p_in) = [31]
   \<and> length (operands (data p_in)) = 1 \<and> num_cores_per_replica (data c1_meta) = 2
   \<and> ValidatePartitionedInput p_in 2 =
       (False, [OpError 21 (InputsInconsistent NumCoresPerReplica 2 1)])
   \<and> check_op p_module cluster_c1 (True, []) p_in = (True, [])
   \<and> runOnOperation p_module = Some (True, [])"
proof -
  have plain: "list_all (\<lambda>op. IsTpuRegularOp op \<longrightarrow> getAttr op kTpuReplicateAttr = None)
                 (walk p_module)"
    by code_simp
  then have h2: "\<forall>op\<in>set (walk p_module).
           IsTpuRegularOp op
           \<and> 21 \<in> oid ` (set (GetPredecessors p_module op) \<union> set (GetSuccessors p_module op)) \<longrightarrow>
           (\<forall>c. getAttr op kTpuReplicateAttr = Some c \<longrightarrow> cluster_c1 c = None)"
    by (auto simp: list_all_iff)
  have e: "well_formed_module p_module"
    "registered (data p_in) = Some TPUPartitionedInputOp" "oid p_in = 21"
    "map oid (GetSuccessors p_module p_in) = [31]"
    "length (operands (data p_in)) = 1" "num_cores_per_replica (data c1_meta) = 2"
    "ValidatePartitionedInput p_in 2 =
       (False, [OpError 21 (InputsInconsistent NumCoresPerReplica 2 1)])"
    "runOnOperation p_module = Some (True, [])"
    by code_simp+
  have kind: "registered (data p_in) \<in> Some ` set replicated_io_ops"
    by (simp add: e(2) replicated_io_ops_def)
  from arity_rules_only_by_delegation [OF collect_p h2, where p = p_in and st = "(True, [])"] kind
  have "check_op p_module cluster_c1 (True, []) p_in = (True, [])"
    by blast
  with collect_p plain e show ?thesis by simp
qed

end
